theory Spec2Isabelle
  imports Main
begin

section \<open>Azure resource modules: a shallow embedding\<close>

text \<open>
  The three modules (\<^verbatim>\<open>azure_rm_resourcegroup\<close>, \<^verbatim>\<open>azure_rm_networkinterface\<close>,
  \<^verbatim>\<open>azure_rm_virtualmachine\<close>) each have one entry point, \<^verbatim>\<open>exec_module_impl\<close>, which
  talks to the Azure management client.  The client is an external collaborator, so every
  client call made by the modules is recorded in a log of calls, and the answer of the
  client is a parameter of the model that may depend on the whole log so far.

  A Python exception is a value of \<open>exn\<close>.  A run of \<^verbatim>\<open>exec_module_impl\<close> ends in one of
  three ways: it returns \<^verbatim>\<open>self.results\<close>, it calls \<^verbatim>\<open>self.fail\<close>, or an exception
  escapes it.

  The calls of \<^verbatim>\<open>self.log\<close> and \<^verbatim>\<open>self.debug\<close>, and the serialisation of objects for
  the log, are left out: they make no client call and set no variable that is read later.
  The helpers of the base class \<^verbatim>\<open>AzureRMModuleBase\<close> that the modules call
  (\<^verbatim>\<open>get_resource_group\<close>, \<^verbatim>\<open>check_provisioning_state\<close>, \<^verbatim>\<open>get_poller_result\<close>) are
  not among the sources; what they answer is a parameter, like the answers of the client.
\<close>

subsection \<open>Values shared by the modules\<close>

text \<open>A \<^verbatim>\<open>tags\<close> argument or attribute: \<^verbatim>\<open>None\<close> or a dictionary from strings to strings.\<close>

type_synonym tags = "(string \<rightharpoonup> string) option"

text \<open>Truth value of a Python object that is \<^verbatim>\<open>None\<close> or a dictionary (a string).\<close>

definition truthy_tags :: "tags \<Rightarrow> bool" where
  "truthy_tags t = (case t of None \<Rightarrow> False | Some m \<Rightarrow> m \<noteq> Map.empty)"

definition truthy_str :: "string option \<Rightarrow> bool" where
  "truthy_str s = (case s of None \<Rightarrow> False | Some x \<Rightarrow> x \<noteq> [])"

text \<open>The \<^verbatim>\<open>state\<close> argument.  Each module admits some of the values only (its
  \<^verbatim>\<open>choices\<close>); the \<^verbatim>\<open>if\<close>/\<^verbatim>\<open>elif\<close> chains of the code decide what happens for each.\<close>

datatype state = Present | Absent | Started | Stopped

datatype exn = CloudError | OtherException | NameError | TypeError | IndexError | KeyError

text \<open>The messages of \<^verbatim>\<open>self.fail\<close>, one constructor for each place that calls it.
  \<open>ProvisioningStateError\<close> and \<open>HelperFailed\<close> stand for failures raised inside helpers
  of the base class \<^verbatim>\<open>AzureRMModuleBase\<close>.\<close>

datatype fail_msg =
    ProvisioningStateError string
  | HelperFailed string
  | RgCannotBeMoved string "string option"
  | RgLocationRequired
  | RgErrorCreatingOrUpdating string exn
  | RgErrorDelete string exn
  | NicNameParameterError
  | NicSubnetNotFound "string option" "string option"
  | NicPublicIpNotFound "string option" string
  | NicSecurityGroupNotFound "string option"
  | NicErrorCreatingOrUpdating string exn
  | NicErrorDeleting string exn
  | VmErrorRetrievingSizes exn
  | VmErrorFetchingNic string exn
  | VmErrorImageNotFound
  | VmErrorFetchingStorageAccount "string option" exn
  | VmErrorCreatingOrUpdating string exn
  | VmErrorDeletingVm string exn
  | VmErrorDeletingNic string exn
  | VmErrorDeletingPip string exn

text \<open>
  Modelled from the spec: \<^verbatim>\<open>self.fail\<close> is a method of the base class
  \<^verbatim>\<open>AzureRMModuleBase\<close>, which is not among the sources.  The spec says of it that
  ``all fatal errors abort the whole invocation'' and that ``no partial
  ReconciliationResult is returned on fatal failure'': a call of \<^verbatim>\<open>self.fail\<close> ends the
  run with \<open>Fail\<close>, and no handler of the modules catches it.
\<close>

datatype failure = Fail fail_msg | Raise exn

text \<open>\<^verbatim>\<open>self.results['results']\<close>: the empty dictionary it starts as, the dictionary of a
  resource, or the string \<^verbatim>\<open>'Deleted'\<close>.\<close>

datatype 'd results = EmptyDict | Dict 'd | Deleted

record 'd module_results =
  changed :: bool
  check_mode :: bool
  results :: "'d results"

subsection \<open>Objects of the management client\<close>

record resource_group =
  rg_id :: string
  rg_name :: string
  rg_location :: string
  rg_tags :: tags
  rg_provisioning_state :: string

text \<open>The arguments of the constructor \<^verbatim>\<open>ResourceGroup(location=..., tags=...)\<close>.\<close>

record rg_params =
  rgp_location :: "string option"
  rgp_tags :: tags

record subnet =
  sn_id :: string
  sn_name :: string

record public_ip =
  pip_id :: string
  pip_name :: string
  pip_location :: string
  pip_resource_guid :: string

record security_group =
  nsg_id :: string
  nsg_name :: string
  nsg_location :: string
  nsg_resource_guid :: string

record ip_configuration =
  ipc_name :: string
  ipc_private_ip_address :: "string option"
  ipc_private_ip_allocation_method :: string
  ipc_subnet :: "subnet option"
  ipc_public_ip_address :: "string option"

text \<open>A network interface as the client returns it.  \<open>ipc_public_ip_address\<close> is the id of
  the attached public IP address, \<open>ni_network_security_group\<close> the id and the name of the
  security group.  The attributes that \<^verbatim>\<open>nic_to_dict\<close> only copies (DNS settings, MAC
  address, primary, IP forwarding, provisioning state, etag) are left out: no statement of
  the module reads them.\<close>

record network_interface =
  ni_id :: string
  ni_name :: string
  ni_type :: string
  ni_location :: "string option"
  ni_tags :: tags
  ni_network_security_group :: "(string \<times> string) option"
  ni_ip_configurations :: "ip_configuration list"

text \<open>The dictionary built by \<^verbatim>\<open>nic_to_dict\<close>, with the two keys
  \<^verbatim>\<open>public_ip_address_id\<close> and \<^verbatim>\<open>public_ip_address_name\<close> that the diff adds to
  \<^verbatim>\<open>ip_configuration\<close>.  A sub-dictionary that is either empty or holds \<^verbatim>\<open>id\<close> and
  \<^verbatim>\<open>name\<close> is an optional pair.\<close>

record nic_dict =
  nd_id :: string
  nd_name :: string
  nd_type :: string
  nd_location :: "string option"
  nd_tags :: tags
  nd_network_security_group :: "(string \<times> string) option"
  nd_ipc_name :: string
  nd_private_ip_address :: "string option"
  nd_private_ip_allocation_method :: string
  nd_subnet_id :: "string option"
  nd_public_ip_address :: "(string \<times> string) option"
  nd_public_ip_address_id :: "string option"
  nd_public_ip_address_name :: "string option"

text \<open>The \<^verbatim>\<open>NetworkInterface\<close> object that is sent to \<^verbatim>\<open>create_or_update\<close>.\<close>

record nic_params =
  np_location :: "string option"
  np_name :: string
  np_tags :: tags
  np_ipc_name :: string
  np_private_ip_allocation_method :: string
  np_subnet_id :: string
  np_network_security_group :: "security_group option"
  np_private_ip_address :: "string option"
  np_public_ip_address :: "public_ip option"

text \<open>The \<^verbatim>\<open>VirtualMachine\<close> object that \<^verbatim>\<open>exec_module_impl\<close> builds and sends to
  \<^verbatim>\<open>create_or_update\<close>; the client answers with a virtual machine of the same shape.
  \<open>vm_vhd_uri\<close> holds the three values that are formatted into the address
  \<^verbatim>\<open>https://{0}.blob.core.windows.net/{1}/{2}.vhd\<close>.\<close>

record virtual_machine =
  vm_location :: "string option"
  vm_name :: string
  vm_tags :: tags
  vm_admin_username :: "string option"
  vm_admin_password :: "string option"
  vm_computer_name :: "string option"
  vm_vm_size :: string
  vm_os_disk_name :: "string option"
  vm_vhd_uri :: "string option \<times> string option \<times> string option"
  vm_os_disk_caching :: string
  vm_image_publisher :: "string option"
  vm_image_offer :: "string option"
  vm_image_sku :: "string option"
  vm_image_version :: string
  vm_network_interfaces :: "string list"

subsection \<open>Calls of the management client\<close>

datatype call =
    GetResourceGroup string
  | RgGet string
  | RgCreateOrUpdate string rg_params
  | RgDelete string
  | SubnetGet string "string option" "string option"
  | PublicIpGet string string
  | SecurityGroupGet string string
  | NicGet string string
  | NicCreateOrUpdate string string nic_params
  | NicDelete string string
  | VmSizesList "string option"
  | VmImagesList "string option" "string option" "string option" "string option"
  | StorageAccountGet string "string option"
  | VmGet string string
  | VmCreateOrUpdate string string virtual_machine
  | VmDelete string string
  | PublicIpDelete string string
  | BlobDelete string string

text \<open>A provider mutation is a create-or-update call or a delete call.\<close>

fun is_mutation :: "call \<Rightarrow> bool" where
  "is_mutation (RgCreateOrUpdate _ _) = True"
| "is_mutation (RgDelete _) = True"
| "is_mutation (NicCreateOrUpdate _ _ _) = True"
| "is_mutation (NicDelete _ _) = True"
| "is_mutation (VmCreateOrUpdate _ _ _) = True"
| "is_mutation (VmDelete _ _) = True"
| "is_mutation (PublicIpDelete _ _) = True"
| "is_mutation (BlobDelete _ _) = True"
| "is_mutation _ = False"

definition mutations :: "call list \<Rightarrow> call list" where
  "mutations tr = filter is_mutation tr"

subsection \<open>Runs\<close>

text \<open>A piece of a module takes the log of the calls made so far and gives its outcome
  and the log extended by the calls it made.\<close>

type_synonym 'a prog = "call list \<Rightarrow> (failure + 'a) \<times> call list"

definition ret :: "'a \<Rightarrow> 'a prog" where
  "ret x = (\<lambda>tr. (Inr x, tr))"

definition fail :: "fail_msg \<Rightarrow> 'a prog" where
  "fail m = (\<lambda>tr. (Inl (Fail m), tr))"

definition raise :: "exn \<Rightarrow> 'a prog" where
  "raise e = (\<lambda>tr. (Inl (Raise e), tr))"

definition bnd :: "'a prog \<Rightarrow> ('a \<Rightarrow> 'b prog) \<Rightarrow> 'b prog" where
  "bnd m k = (\<lambda>tr. case m tr of (Inl f, tr') \<Rightarrow> (Inl f, tr') | (Inr x, tr') \<Rightarrow> k x tr')"

text \<open>One call of the client: the answer is read from the log before the call, and the
  call is appended to the log.\<close>

definition invoke :: "call \<Rightarrow> (call list \<Rightarrow> 'r) \<Rightarrow> 'r prog" where
  "invoke c answer = (\<lambda>tr. (Inr (answer tr), tr @ [c]))"

text \<open>The outcome of a helper of the base class that either returns or fails.\<close>

definition helper :: "failure + 'a \<Rightarrow> 'a prog" where
  "helper r = (\<lambda>tr. (r, tr))"

section \<open>The resource group module\<close>

record rg_args =
  a_name :: string
  a_state :: state
  a_location :: "string option"
  a_tags :: tags
  a_force :: bool

text \<open>
  The collaborators of the module.  A long-running operation answers with a poller, which
  is modelled by the outcome of \<^verbatim>\<open>get_poller_result\<close> on it (a helper of the base class).
  \<open>rg_provisioning_ok\<close> says whether \<^verbatim>\<open>check_provisioning_state\<close> (base class) returns or
  fails.  The update path subscripts the object returned by the client
  (\<^verbatim>\<open>rg['location']\<close>); whether the client's \<^verbatim>\<open>ResourceGroup\<close> class supports that
  is \<open>rg_item_access\<close> (if not, Python raises \<^verbatim>\<open>TypeError\<close>).
\<close>

record rg_env =
  resource_groups_get :: "call list \<Rightarrow> string \<Rightarrow> exn + resource_group"
  resource_groups_create_or_update ::
    "call list \<Rightarrow> string \<Rightarrow> rg_params \<Rightarrow> exn + resource_group"
  resource_groups_delete :: "call list \<Rightarrow> string \<Rightarrow> exn + (failure + unit)"
  rg_provisioning_ok :: "resource_group \<Rightarrow> bool"
  rg_item_access :: bool

text \<open>The local variables \<^verbatim>\<open>changed\<close>, \<^verbatim>\<open>results\<close> and \<^verbatim>\<open>rg\<close> after the
  \<^verbatim>\<open>try\<close> statement.\<close>

record rg_decision =
  rgd_changed :: bool
  rgd_results :: "resource_group results"
  rgd_rg :: "resource_group option"

text \<open>Lines 188--200: the body of the \<^verbatim>\<open>try\<close> once the resource group is fetched.\<close>

definition rg_diff :: "rg_args \<Rightarrow> resource_group \<Rightarrow> rg_decision prog" where
  "rg_diff a rg =
     (if a_state a = Absent then
        ret \<lparr>rgd_changed = True, rgd_results = Dict rg, rgd_rg = Some rg\<rparr>
      else if a_state a = Present then
        (let changed = a_force a;
             changed = (if rg_tags rg \<noteq> a_tags a then True else changed);
             res = (if rg_tags rg \<noteq> a_tags a then rg\<lparr>rg_tags := a_tags a\<rparr> else rg)
         in if Some (rg_location res) \<noteq> a_location a
            then fail (RgCannotBeMoved (a_name a) (a_location a))
            else ret \<lparr>rgd_changed = changed, rgd_results = Dict res, rgd_rg = Some rg\<rparr>)
      else ret \<lparr>rgd_changed = False, rgd_results = Dict rg, rgd_rg = Some rg\<rparr>)"

text \<open>Lines 179--206: fetch and decide.  \<^verbatim>\<open>CloudError\<close> from the fetch means that the
  resource group does not exist; any other exception escapes.\<close>

definition rg_decide :: "rg_env \<Rightarrow> rg_args \<Rightarrow> rg_decision prog" where
  "rg_decide env a =
     bnd (invoke (RgGet (a_name a)) (\<lambda>tr. resource_groups_get env tr (a_name a)))
       (\<lambda>r. case r of
          Inl e \<Rightarrow>
            if e = CloudError
            then ret \<lparr>rgd_changed = (a_state a = Present), rgd_results = EmptyDict,
                      rgd_rg = None\<rparr>
            else raise e
        | Inr rg \<Rightarrow>
            if rg_provisioning_ok env rg then rg_diff a rg
            else fail (ProvisioningStateError (rg_name rg)))"

text \<open>Lines 240--245.\<close>

definition create_or_update_resource_group ::
  "rg_env \<Rightarrow> rg_args \<Rightarrow> rg_params \<Rightarrow> resource_group prog" where
  "create_or_update_resource_group env a params =
     bnd (invoke (RgCreateOrUpdate (a_name a) params)
            (\<lambda>tr. resource_groups_create_or_update env tr (a_name a) params))
       (\<lambda>r. case r of
          Inl e \<Rightarrow> fail (RgErrorCreatingOrUpdating (a_name a) e)
        | Inr res \<Rightarrow> ret res)"

text \<open>Lines 247--257; the result is \<^verbatim>\<open>self.results\<close> with \<^verbatim>\<open>'Deleted'\<close> stored.\<close>

definition delete_resource_group ::
  "rg_env \<Rightarrow> rg_args \<Rightarrow> resource_group module_results \<Rightarrow>
   resource_group module_results prog" where
  "delete_resource_group env a res =
     bnd (invoke (RgDelete (a_name a)) (\<lambda>tr. resource_groups_delete env tr (a_name a)))
       (\<lambda>r. case r of
          Inl e \<Rightarrow> fail (RgErrorDelete (a_name a) e)
        | Inr poller \<Rightarrow> bnd (helper poller) (\<lambda>_. ret (res\<lparr>results := Deleted\<rparr>)))"

text \<open>Lines 219--234: the branch \<^verbatim>\<open>self.state == 'present'\<close> of the apply step.\<close>

definition rg_apply_present ::
  "rg_env \<Rightarrow> rg_args \<Rightarrow> resource_group option \<Rightarrow> resource_group module_results \<Rightarrow>
   resource_group module_results prog" where
  "rg_apply_present env a rg res =
     bnd (case rg of
            None \<Rightarrow>
              if \<not> truthy_str (a_location a) then fail RgLocationRequired
              else ret \<lparr>rgp_location = a_location a, rgp_tags = a_tags a\<rparr>
          | Some r \<Rightarrow>
              if rg_item_access env
              then ret \<lparr>rgp_location = Some (rg_location r), rgp_tags = rg_tags r\<rparr>
              else raise TypeError)
       (\<lambda>params. bnd (create_or_update_resource_group env a params)
          (\<lambda>new. ret (res\<lparr>results := Dict new\<rparr>)))"

text \<open>Lines 214--238.\<close>

definition rg_apply ::
  "rg_env \<Rightarrow> rg_args \<Rightarrow> rg_decision \<Rightarrow> resource_group module_results \<Rightarrow>
   resource_group module_results prog" where
  "rg_apply env a d res =
     (if rgd_changed d then
        bnd (if a_state a = Present \<and> a_force a
             then bnd (delete_resource_group env a res) (\<lambda>res'. ret (None, res'))
             else ret (rgd_rg d, res))
          (\<lambda>(rg, res').
             if a_state a = Present then rg_apply_present env a rg res'
             else if a_state a = Absent then delete_resource_group env a res'
             else ret res')
      else ret res)"

text \<open>\<^verbatim>\<open>AzureRMResourceGroup.exec_module_impl\<close>, lines 174--238; \<open>cm\<close> is
  \<^verbatim>\<open>self.check_mode\<close>, and \<open>rg_report\<close> is \<^verbatim>\<open>self.results\<close> after lines 208--209
  have stored \<^verbatim>\<open>changed\<close> and \<^verbatim>\<open>results\<close> in it.\<close>

definition rg_report :: "bool \<Rightarrow> rg_decision \<Rightarrow> resource_group module_results" where
  "rg_report cm d = \<lparr>changed = rgd_changed d, check_mode = cm, results = rgd_results d\<rparr>"

definition rg_exec_module_impl ::
  "rg_env \<Rightarrow> bool \<Rightarrow> rg_args \<Rightarrow> resource_group module_results prog" where
  "rg_exec_module_impl env cm a =
     bnd (rg_decide env a)
       (\<lambda>d. if cm then ret (rg_report cm d) else rg_apply env a d (rg_report cm d))"

section \<open>The network interface module\<close>

text \<open>\<^verbatim>\<open>NAME_PATTERN = re.compile(r"^[a-z][a-z0-9-]{1,61}[a-z0-9]$")\<close>, used with
  \<^verbatim>\<open>match\<close>: a lower-case letter, one to 61 letters, digits or hyphens, and a letter or
  digit.  Python's \<^verbatim>\<open>$\<close> also matches before a newline that ends the string.\<close>

definition lower_chars :: "char list" where
  "lower_chars = ''abcdefghijklmnopqrstuvwxyz''"

definition digit_chars :: "char list" where
  "digit_chars = ''0123456789''"

definition name_core :: "string \<Rightarrow> bool" where
  "name_core s =
     (case s of
        [] \<Rightarrow> False
      | c # rest \<Rightarrow>
          c \<in> set lower_chars \<and> rest \<noteq> [] \<and> last rest \<in> set (lower_chars @ digit_chars) \<and>
          1 \<le> length (butlast rest) \<and> length (butlast rest) \<le> 61 \<and>
          list_all (\<lambda>x. x \<in> set (lower_chars @ digit_chars @ ''-'')) (butlast rest))"

definition name_pattern_match :: "string \<Rightarrow> bool" where
  "name_pattern_match s =
     (name_core s \<or> (s \<noteq> [] \<and> last s = CHR 0x0A \<and> name_core (butlast s)))"

record nic_args =
  n_resource_group :: string
  n_name :: string
  n_location :: "string option"
  n_security_group_name :: "string option"
  n_state :: state
  n_private_ip_address :: "string option"
  n_private_ip_allocation_method :: string
  n_public_ip_address_name :: "string option"
  n_subnet_name :: "string option"
  n_virtual_network_name :: "string option"
  n_tags :: tags

text \<open>
  The collaborators of the module.  \<open>nic_get_resource_group\<close> is the outcome of the helper
  \<^verbatim>\<open>get_resource_group\<close> of the base class (it returns the resource group or fails);
  \<open>azure_id_to_dict\<close> is the function of that name of \<^verbatim>\<open>azure_rm_common\<close>, which splits
  a resource id into a dictionary.  Neither is among the sources.
\<close>

record nic_env =
  nic_get_resource_group :: "call list \<Rightarrow> string \<Rightarrow> failure + resource_group"
  subnets_get :: "call list \<Rightarrow> string \<Rightarrow> string option \<Rightarrow> string option \<Rightarrow> exn + subnet"
  public_ip_addresses_get :: "call list \<Rightarrow> string \<Rightarrow> string \<Rightarrow> exn + public_ip"
  network_security_groups_get :: "call list \<Rightarrow> string \<Rightarrow> string \<Rightarrow> exn + security_group"
  network_interfaces_get :: "call list \<Rightarrow> string \<Rightarrow> string \<Rightarrow> exn + network_interface"
  network_interfaces_create_or_update ::
    "call list \<Rightarrow> string \<Rightarrow> string \<Rightarrow> nic_params \<Rightarrow> exn + (failure + network_interface)"
  network_interfaces_delete :: "call list \<Rightarrow> string \<Rightarrow> string \<Rightarrow> exn + (failure + unit)"
  nic_provisioning_ok :: "network_interface \<Rightarrow> bool"
  azure_id_to_dict :: "string \<Rightarrow> (string \<rightharpoonup> string)"

text \<open>\<^verbatim>\<open>nic_to_dict\<close>, lines 220--264.  \<^verbatim>\<open>nic.ip_configurations[0]\<close> raises
  \<^verbatim>\<open>IndexError\<close> on an empty list; the key \<^verbatim>\<open>id\<close> of the subnet dictionary is assigned
  twice and ends as the subnet's name; \<^verbatim>\<open>id_keys['publicIPAddresses']\<close> raises
  \<^verbatim>\<open>KeyError\<close> when the id has no such part.\<close>

definition nic_to_dict :: "(string \<Rightarrow> (string \<rightharpoonup> string)) \<Rightarrow> network_interface \<Rightarrow> exn + nic_dict" where
  "nic_to_dict id_to_dict nic =
     (case ni_ip_configurations nic of
        [] \<Rightarrow> Inl IndexError
      | ipc # _ \<Rightarrow>
          (let d = \<lparr>nd_id = ni_id nic, nd_name = ni_name nic, nd_type = ni_type nic,
                    nd_location = ni_location nic, nd_tags = ni_tags nic,
                    nd_network_security_group = ni_network_security_group nic,
                    nd_ipc_name = ipc_name ipc,
                    nd_private_ip_address = ipc_private_ip_address ipc,
                    nd_private_ip_allocation_method = ipc_private_ip_allocation_method ipc,
                    nd_subnet_id = map_option sn_name (ipc_subnet ipc),
                    nd_public_ip_address = None,
                    nd_public_ip_address_id = None,
                    nd_public_ip_address_name = None\<rparr>
           in case ipc_public_ip_address ipc of
                None \<Rightarrow> Inr d
              | Some pid \<Rightarrow>
                  (case id_to_dict pid ''publicIPAddresses'' of
                     None \<Rightarrow> Inl KeyError
                   | Some nm \<Rightarrow> Inr (d\<lparr>nd_public_ip_address := Some (pid, nm)\<rparr>))))"

text \<open>Lines 508--532: the three lookups; \<^verbatim>\<open>CloudError\<close> becomes a failure, any other
  exception escapes.\<close>

definition get_public_ip_address :: "nic_env \<Rightarrow> nic_args \<Rightarrow> string \<Rightarrow> public_ip prog" where
  "get_public_ip_address env a nm =
     bnd (invoke (PublicIpGet (n_resource_group a) nm)
            (\<lambda>tr. public_ip_addresses_get env tr (n_resource_group a) nm))
       (\<lambda>r. case r of
          Inl e \<Rightarrow>
            if e = CloudError
            then fail (NicPublicIpNotFound (n_public_ip_address_name a) (n_resource_group a))
            else raise e
        | Inr p \<Rightarrow> ret p)"

definition get_subnet :: "nic_env \<Rightarrow> nic_args \<Rightarrow> subnet prog" where
  "get_subnet env a =
     bnd (invoke (SubnetGet (n_resource_group a) (n_virtual_network_name a) (n_subnet_name a))
            (\<lambda>tr. subnets_get env tr (n_resource_group a) (n_virtual_network_name a)
                     (n_subnet_name a)))
       (\<lambda>r. case r of
          Inl e \<Rightarrow>
            if e = CloudError
            then fail (NicSubnetNotFound (n_subnet_name a) (n_virtual_network_name a))
            else raise e
        | Inr s \<Rightarrow> ret s)"

definition get_security_group :: "nic_env \<Rightarrow> nic_args \<Rightarrow> string \<Rightarrow> security_group prog" where
  "get_security_group env a nm =
     bnd (invoke (SecurityGroupGet (n_resource_group a) nm)
            (\<lambda>tr. network_security_groups_get env tr (n_resource_group a) nm))
       (\<lambda>r. case r of
          Inl e \<Rightarrow>
            if e = CloudError then fail (NicSecurityGroupNotFound (n_security_group_name a))
            else raise e
        | Inr g \<Rightarrow> ret g)"

text \<open>\<^verbatim>\<open>self.location\<close> after the default is set, and the local variables
  \<^verbatim>\<open>subnet\<close>, \<^verbatim>\<open>public_ip\<close> and \<^verbatim>\<open>nsg\<close>; \<open>None\<close> is a variable that is not bound.\<close>

record nic_refs =
  nr_location :: "string option"
  nr_subnet :: "subnet option"
  nr_public_ip :: "public_ip option"
  nr_nsg :: "security_group option"

text \<open>A name that is looked up only when it is truthy.\<close>

definition when_named :: "string option \<Rightarrow> (string \<Rightarrow> 'a prog) \<Rightarrow> 'a option prog" where
  "when_named nm look =
     (case nm of
        None \<Rightarrow> ret None
      | Some x \<Rightarrow> if x = [] then ret None else bnd (look x) (\<lambda>v. ret (Some v)))"

text \<open>Lines 322--339: default location, name check, and the lookups of the resources that
  the desired state names.\<close>

definition nic_resolve :: "nic_env \<Rightarrow> nic_args \<Rightarrow> nic_refs prog" where
  "nic_resolve env a =
     bnd (bnd (invoke (GetResourceGroup (n_resource_group a))
                 (\<lambda>tr. nic_get_resource_group env tr (n_resource_group a))) helper)
       (\<lambda>resource_group.
          let location = (if truthy_str (n_location a) then n_location a
                          else Some (rg_location resource_group))
          in if \<not> name_pattern_match (n_name a) then fail NicNameParameterError
             else if n_state a = Present then
               bnd (get_subnet env a)
                 (\<lambda>subnet. bnd (when_named (n_public_ip_address_name a) (get_public_ip_address env a))
                    (\<lambda>public_ip. bnd (when_named (n_security_group_name a) (get_security_group env a))
                       (\<lambda>nsg. ret \<lparr>nr_location = location, nr_subnet = Some subnet,
                                    nr_public_ip = public_ip, nr_nsg = nsg\<rparr>)))
             else ret \<lparr>nr_location = location, nr_subnet = None, nr_public_ip = None,
                       nr_nsg = None\<rparr>)"

text \<open>Lines 349--380: the field-by-field comparison for \<^verbatim>\<open>state == 'present'\<close>; each
  step takes and gives the pair of \<^verbatim>\<open>changed\<close> and \<^verbatim>\<open>results\<close>.  The comparisons of
  the security group and of the subnet are commented out in the source.\<close>

definition diff_tags :: "nic_args \<Rightarrow> bool \<times> nic_dict \<Rightarrow> bool \<times> nic_dict" where
  "diff_tags a cr =
     (if truthy_tags (n_tags a) \<and> nd_tags (snd cr) \<noteq> n_tags a
      then (True, (snd cr)\<lparr>nd_tags := n_tags a\<rparr>) else cr)"

definition diff_private_ip :: "nic_args \<Rightarrow> bool \<times> nic_dict \<Rightarrow> bool \<times> nic_dict" where
  "diff_private_ip a cr =
     (if truthy_str (n_private_ip_address a) \<and>
         nd_private_ip_address (snd cr) \<noteq> n_private_ip_address a
      then (True, (snd cr)\<lparr>nd_private_ip_address := n_private_ip_address a\<rparr>) else cr)"

definition diff_public_ip ::
  "nic_args \<Rightarrow> public_ip option \<Rightarrow> bool \<times> nic_dict \<Rightarrow> (bool \<times> nic_dict) prog" where
  "diff_public_ip a public_ip cr =
     (if truthy_str (n_public_ip_address_name a) then
        (case public_ip of
           None \<Rightarrow> raise NameError
         | Some p \<Rightarrow>
             if map_option fst (nd_public_ip_address (snd cr)) \<noteq> Some (pip_id p)
             then ret (True, (snd cr)\<lparr>nd_public_ip_address_id := Some (pip_id p),
                                      nd_public_ip_address_name := Some (pip_name p)\<rparr>)
             else ret cr)
      else ret cr)"

definition diff_allocation :: "nic_args \<Rightarrow> bool \<times> nic_dict \<Rightarrow> bool \<times> nic_dict" where
  "diff_allocation a cr =
     (if nd_private_ip_allocation_method (snd cr) \<noteq> n_private_ip_allocation_method a
      then (True, (snd cr)\<lparr>nd_private_ip_allocation_method :=
                             n_private_ip_allocation_method a\<rparr>)
      else cr)"

text \<open>The local variables after the \<^verbatim>\<open>try\<close> statement: \<^verbatim>\<open>changed\<close>, and the fetched
  \<^verbatim>\<open>nic\<close> with the dictionary \<^verbatim>\<open>results\<close> (\<open>None\<close>: \<^verbatim>\<open>nic\<close> is \<^verbatim>\<open>None\<close> and
  \<^verbatim>\<open>results\<close> is the empty dictionary).\<close>

record nic_decision =
  nicd_changed :: bool
  nicd_found :: "(network_interface \<times> nic_dict) option"
  nicd_refs :: nic_refs

definition nicd_results :: "nic_decision \<Rightarrow> nic_dict results" where
  "nicd_results d = (case nicd_found d of None \<Rightarrow> EmptyDict | Some (_, r) \<Rightarrow> Dict r)"

text \<open>Lines 345--391: the body of the \<^verbatim>\<open>try\<close> once the network interface is fetched.\<close>

definition nic_diff ::
  "nic_env \<Rightarrow> nic_args \<Rightarrow> nic_refs \<Rightarrow> network_interface \<Rightarrow> nic_decision prog" where
  "nic_diff env a refs nic =
     (if \<not> nic_provisioning_ok env nic then fail (ProvisioningStateError (ni_name nic))
      else case nic_to_dict (azure_id_to_dict env) nic of
        Inl e \<Rightarrow> raise e
      | Inr res \<Rightarrow>
          if n_state a = Present then
            bnd (diff_public_ip a (nr_public_ip refs)
                   (diff_private_ip a (diff_tags a (False, res))))
              (\<lambda>cr. let cr' = diff_allocation a cr
                    in ret \<lparr>nicd_changed = fst cr', nicd_found = Some (nic, snd cr'),
                            nicd_refs = refs\<rparr>)
          else if n_state a = Absent then
            ret \<lparr>nicd_changed = True, nicd_found = Some (nic, res), nicd_refs = refs\<rparr>
          else ret \<lparr>nicd_changed = False, nicd_found = Some (nic, res), nicd_refs = refs\<rparr>)"

text \<open>Lines 318--397: resolve, fetch and decide.\<close>

definition nic_decide :: "nic_env \<Rightarrow> nic_args \<Rightarrow> nic_decision prog" where
  "nic_decide env a =
     bnd (nic_resolve env a)
       (\<lambda>refs. bnd (invoke (NicGet (n_resource_group a) (n_name a))
                      (\<lambda>tr. network_interfaces_get env tr (n_resource_group a) (n_name a)))
          (\<lambda>r. case r of
             Inl e \<Rightarrow>
               if e = CloudError
               then ret \<lparr>nicd_changed = (n_state a = Present), nicd_found = None,
                         nicd_refs = refs\<rparr>
               else raise e
           | Inr nic \<Rightarrow> nic_diff env a refs nic))"

text \<open>Lines 411--435: the object for a network interface that does not exist.\<close>

definition nic_create_params :: "nic_args \<Rightarrow> nic_refs \<Rightarrow> nic_params prog" where
  "nic_create_params a refs =
     (case nr_subnet refs of
        None \<Rightarrow> raise NameError
      | Some subnet \<Rightarrow>
          ret \<lparr>np_location = nr_location refs, np_name = n_name a, np_tags = n_tags a,
               np_ipc_name = ''default'',
               np_private_ip_allocation_method = n_private_ip_allocation_method a,
               np_subnet_id = sn_id subnet,
               np_network_security_group =
                 (if truthy_str (n_security_group_name a) then nr_nsg refs else None),
               np_private_ip_address =
                 (if truthy_str (n_private_ip_address a) then n_private_ip_address a else None),
               np_public_ip_address =
                 (if truthy_str (n_public_ip_address_name a) then nr_public_ip refs
                  else None)\<rparr>)"

text \<open>Lines 437--466: the object for an update, built from \<^verbatim>\<open>results\<close>; the public IP
  address and the security group are fetched again by the names in \<^verbatim>\<open>results\<close>.\<close>

definition nic_update_params ::
  "nic_env \<Rightarrow> nic_args \<Rightarrow> nic_refs \<Rightarrow> nic_dict \<Rightarrow> nic_params prog" where
  "nic_update_params env a refs res =
     (case nr_subnet refs of
        None \<Rightarrow> raise NameError
      | Some subnet \<Rightarrow>
          bnd (case nd_public_ip_address res of
                 None \<Rightarrow> ret None
               | Some (pid, pname) \<Rightarrow>
                   if pid = [] then ret None
                   else bnd (get_public_ip_address env a pname) (\<lambda>p. ret (Some p)))
            (\<lambda>public_ip.
               bnd (case nd_network_security_group res of
                      None \<Rightarrow> ret None
                    | Some (gid, gname) \<Rightarrow>
                        if gid = [] then ret None
                        else bnd (get_security_group env a gname) (\<lambda>g. ret (Some g)))
                 (\<lambda>nsg.
                    ret \<lparr>np_location = nd_location res, np_name = nd_name res,
                         np_tags = nd_tags res, np_ipc_name = nd_ipc_name res,
                         np_private_ip_allocation_method = nd_private_ip_allocation_method res,
                         np_subnet_id = sn_id subnet,
                         np_network_security_group = nsg,
                         np_private_ip_address =
                           (if truthy_str (nd_private_ip_address res)
                            then nd_private_ip_address res else None),
                         np_public_ip_address = public_ip\<rparr>)))"

text \<open>Lines 481--496.\<close>

definition create_or_update_nic :: "nic_env \<Rightarrow> nic_args \<Rightarrow> nic_params \<Rightarrow> nic_dict prog" where
  "create_or_update_nic env a params =
     bnd (invoke (NicCreateOrUpdate (n_resource_group a) (n_name a) params)
            (\<lambda>tr. network_interfaces_create_or_update env tr (n_resource_group a) (n_name a)
                     params))
       (\<lambda>r. case r of
          Inl e \<Rightarrow> fail (NicErrorCreatingOrUpdating (n_name a) e)
        | Inr poller \<Rightarrow>
            bnd (helper poller)
              (\<lambda>new_nic. case nic_to_dict (azure_id_to_dict env) new_nic of
                 Inl e \<Rightarrow> raise e
               | Inr d \<Rightarrow> ret d))"

text \<open>Lines 498--506.\<close>

definition delete_nic ::
  "nic_env \<Rightarrow> nic_args \<Rightarrow> nic_dict module_results \<Rightarrow> nic_dict module_results prog" where
  "delete_nic env a res =
     bnd (invoke (NicDelete (n_resource_group a) (n_name a))
            (\<lambda>tr. network_interfaces_delete env tr (n_resource_group a) (n_name a)))
       (\<lambda>r. case r of
          Inl e \<Rightarrow> fail (NicErrorDeleting (n_name a) e)
        | Inr poller \<Rightarrow> bnd (helper poller) (\<lambda>_. ret (res\<lparr>results := Deleted\<rparr>)))"

text \<open>Lines 405--479.\<close>

definition nic_apply ::
  "nic_env \<Rightarrow> nic_args \<Rightarrow> nic_decision \<Rightarrow> nic_dict module_results \<Rightarrow>
   nic_dict module_results prog" where
  "nic_apply env a d res =
     (if nicd_changed d then
        (if n_state a = Present then
           bnd (case nicd_found d of
                  None \<Rightarrow> nic_create_params a (nicd_refs d)
                | Some (_, r) \<Rightarrow> nic_update_params env a (nicd_refs d) r)
             (\<lambda>params. bnd (create_or_update_nic env a params)
                (\<lambda>new. ret (res\<lparr>results := Dict new\<rparr>)))
         else if n_state a = Absent then delete_nic env a res
         else ret res)
      else ret res)"

text \<open>\<^verbatim>\<open>AzureRMNetworkInterface.exec_module_impl\<close>, lines 313--479; \<open>cm\<close> is
  \<^verbatim>\<open>self.check_mode\<close>, and \<open>nic_report\<close> is \<^verbatim>\<open>self.results\<close> after lines 399--400.\<close>

definition nic_report :: "bool \<Rightarrow> nic_decision \<Rightarrow> nic_dict module_results" where
  "nic_report cm d = \<lparr>changed = nicd_changed d, check_mode = cm, results = nicd_results d\<rparr>"

definition nic_exec_module_impl ::
  "nic_env \<Rightarrow> bool \<Rightarrow> nic_args \<Rightarrow> nic_dict module_results prog" where
  "nic_exec_module_impl env cm a =
     bnd (nic_decide env a)
       (\<lambda>d. if cm then ret (nic_report cm d) else nic_apply env a d (nic_report cm d))"

section \<open>The virtual machine module\<close>

text \<open>The arguments that the module reads (\<^verbatim>\<open>ssh_password\<close>, \<^verbatim>\<open>ssh_public_key\<close>,
  \<^verbatim>\<open>os_type\<close> and \<^verbatim>\<open>log_path\<close> are set and never read).\<close>

record vm_args =
  v_resource_group :: string
  v_name :: string
  v_state :: state
  v_location :: "string option"
  v_short_hostname :: "string option"
  v_vm_size :: string
  v_force :: bool
  v_admin_username :: "string option"
  v_admin_password :: "string option"
  v_image_publisher :: "string option"
  v_image_offer :: "string option"
  v_image_sku :: "string option"
  v_image_version :: string
  v_storage_account_name :: "string option"
  v_storage_container_name :: "string option"
  v_storage_blob_name :: "string option"
  v_os_disk_caching :: string
  v_network_interface_names :: "string list option"
  v_delete_network_interfaces :: bool
  v_delete_virtual_storage :: bool
  v_delete_public_ips :: bool
  v_tags :: tags

text \<open>What \<^verbatim>\<open>delete_vm\<close> reads of the object that the name \<^verbatim>\<open>vm\<close> denotes there:
  the value of \<^verbatim>\<open>vm.storage_profile.os_disk.virtual_hard_disk.uri\<close> and the list
  \<^verbatim>\<open>vm.network_profile.network_interfaces\<close> (each element is given to
  \<^verbatim>\<open>azure_id_to_dict\<close>), or the exception that reading them raises.\<close>

record vm_object =
  vo_vhd_uri :: "exn + string"
  vo_network_interfaces :: "exn + string list"

text \<open>
  The collaborators of the module.  The lists of sizes and of image versions are the lists
  of their \<^verbatim>\<open>name\<close> attributes; a list of versions that is \<^verbatim>\<open>None\<close> is the empty list
  (both are falsy).  \<^verbatim>\<open>virtual_machines.delete\<close> answers with a poller that the module
  never waits for.

  \<^verbatim>\<open>delete_vm\<close> has no parameter and no local variable \<^verbatim>\<open>vm\<close> (the variable of that
  name is local to \<^verbatim>\<open>exec_module_impl\<close>), so Python looks the name up among the globals
  of the module, which the two \<^verbatim>\<open>import *\<close> lines fill from files that are not among the
  sources: \<open>global_vm\<close> is that binding, \<open>None\<close> when there is none (\<^verbatim>\<open>NameError\<close>).
  Nothing in the sources binds or expects a global of that name, so \<open>None\<close> is the module
  as it runs; the other case is kept so that no property rests on the missing files.
\<close>

record vm_env =
  vm_get_resource_group :: "call list \<Rightarrow> string \<Rightarrow> failure + resource_group"
  virtual_machine_sizes_list :: "call list \<Rightarrow> string option \<Rightarrow> exn + string list"
  vm_network_interfaces_get :: "call list \<Rightarrow> string \<Rightarrow> string \<Rightarrow> exn + network_interface"
  virtual_machine_images_list ::
    "call list \<Rightarrow> string option \<Rightarrow> string option \<Rightarrow> string option \<Rightarrow> string option \<Rightarrow>
     exn + string list"
  storage_accounts_get_properties :: "call list \<Rightarrow> string \<Rightarrow> string option \<Rightarrow> exn + unit"
  virtual_machines_get :: "call list \<Rightarrow> string \<Rightarrow> string \<Rightarrow> exn + virtual_machine"
  virtual_machines_create_or_update ::
    "call list \<Rightarrow> string \<Rightarrow> string \<Rightarrow> virtual_machine \<Rightarrow> exn + (failure + virtual_machine)"
  virtual_machines_delete :: "call list \<Rightarrow> string \<Rightarrow> string \<Rightarrow> exn + unit"
  vm_network_interfaces_delete :: "call list \<Rightarrow> string \<Rightarrow> string \<Rightarrow> exn + (failure + unit)"
  public_ip_addresses_delete :: "call list \<Rightarrow> string \<Rightarrow> string \<Rightarrow> exn + (failure + unit)"
  vm_provisioning_ok :: "virtual_machine \<Rightarrow> bool"
  vm_azure_id_to_dict :: "string \<Rightarrow> (string \<rightharpoonup> string)"
  global_vm :: "vm_object option"

text \<open>\<^verbatim>\<open>self.results\<close> of this module: \<^verbatim>\<open>delete_vm\<close> adds three keys to it.\<close>

record vm_module_results = "virtual_machine module_results" +
  deleted_vhd_uris :: "string list option"
  deleted_network_interfaces :: "string list option"
  deleted_public_ips :: "string list option"

text \<open>\<^verbatim>\<open>vm_size_is_valid\<close>, lines 488--500: \<^verbatim>\<open>True\<close> when the size is in the list of
  the location, \<^verbatim>\<open>False\<close> when it is not.\<close>

definition vm_size_is_valid :: "vm_env \<Rightarrow> vm_args \<Rightarrow> string option \<Rightarrow> bool prog" where
  "vm_size_is_valid env a location =
     bnd (invoke (VmSizesList location) (\<lambda>tr. virtual_machine_sizes_list env tr location))
       (\<lambda>r. case r of
          Inl e \<Rightarrow> fail (VmErrorRetrievingSizes e)
        | Inr sizes \<Rightarrow> ret (v_vm_size a \<in> set sizes))"

text \<open>\<^verbatim>\<open>get_network_interface\<close>, lines 411--416.\<close>

definition get_network_interface :: "vm_env \<Rightarrow> vm_args \<Rightarrow> string \<Rightarrow> network_interface prog" where
  "get_network_interface env a nm =
     bnd (invoke (NicGet (v_resource_group a) nm)
            (\<lambda>tr. vm_network_interfaces_get env tr (v_resource_group a) nm))
       (\<lambda>r. case r of
          Inl e \<Rightarrow> fail (VmErrorFetchingNic nm e)
        | Inr nic \<Rightarrow> ret nic)"

text \<open>The loop of lines 216--218; the result is the list of the ids.\<close>

fun fetch_interfaces :: "vm_env \<Rightarrow> vm_args \<Rightarrow> string list \<Rightarrow> string list prog" where
  "fetch_interfaces env a [] = ret []"
| "fetch_interfaces env a (nm # nms) =
     bnd (get_network_interface env a nm)
       (\<lambda>nic. bnd (fetch_interfaces env a nms) (\<lambda>ids. ret (ni_id nic # ids)))"

text \<open>\<^verbatim>\<open>get_image_version\<close>, lines 453--470.  The handler of the listing formats its
  message with the field \<^verbatim>\<open>{4}\<close> and four arguments, which raises \<^verbatim>\<open>IndexError\<close>
  before \<^verbatim>\<open>self.fail\<close> is called.\<close>

definition get_image_version ::
  "vm_env \<Rightarrow> vm_args \<Rightarrow> string option \<Rightarrow> string option prog" where
  "get_image_version env a location =
     bnd (invoke (VmImagesList location (v_image_publisher a) (v_image_offer a) (v_image_sku a))
            (\<lambda>tr. virtual_machine_images_list env tr location (v_image_publisher a)
                     (v_image_offer a) (v_image_sku a)))
       (\<lambda>r. case r of
          Inl e \<Rightarrow> raise IndexError
        | Inr versions \<Rightarrow>
            if versions \<noteq> [] then
              (if v_image_version a = ''latest'' then ret (Some (last versions))
               else ret (find (\<lambda>version. version = v_image_version a) versions))
            else ret None)"

text \<open>\<^verbatim>\<open>get_storage_account\<close>, lines 472--478.\<close>

definition get_storage_account :: "vm_env \<Rightarrow> vm_args \<Rightarrow> unit prog" where
  "get_storage_account env a =
     bnd (invoke (StorageAccountGet (v_resource_group a) (v_storage_account_name a))
            (\<lambda>tr. storage_accounts_get_properties env tr (v_resource_group a)
                     (v_storage_account_name a)))
       (\<lambda>r. case r of
          Inl e \<Rightarrow> fail (VmErrorFetchingStorageAccount (v_storage_account_name a) e)
        | Inr account \<Rightarrow> ret ())"

text \<open>The attributes and local variables that lines 207--233 set: \<^verbatim>\<open>self.location\<close>,
  \<^verbatim>\<open>network_interfaces\<close>, \<^verbatim>\<open>self.storage_blob_name\<close> and \<^verbatim>\<open>self.image_version\<close>.\<close>

record vm_resolved =
  vr_location :: "string option"
  vr_network_interfaces :: "string list"
  vr_storage_blob_name :: "string option"
  vr_image_version :: string

text \<open>Lines 212--233, the checks for \<^verbatim>\<open>state == 'started'\<close>.  The value that
  \<^verbatim>\<open>vm_size_is_valid\<close> returns is not used.  Iterating over
  \<^verbatim>\<open>network_interface_names\<close> raises \<^verbatim>\<open>TypeError\<close> when it is \<^verbatim>\<open>None\<close>.\<close>

definition vm_resolve_started :: "vm_env \<Rightarrow> vm_args \<Rightarrow> string option \<Rightarrow> vm_resolved prog" where
  "vm_resolve_started env a location =
     bnd (vm_size_is_valid env a location)
       (\<lambda>_. bnd (case v_network_interface_names a of
                   None \<Rightarrow> raise TypeError
                 | Some nms \<Rightarrow> fetch_interfaces env a nms)
          (\<lambda>network_interfaces.
             let storage_blob_name =
                   (if \<not> truthy_str (v_storage_blob_name a) then Some (v_name a @ ''.vsd'')
                    else v_storage_blob_name a)
             in bnd (get_image_version env a location)
                  (\<lambda>image_version. case image_version of
                     None \<Rightarrow> fail VmErrorImageNotFound
                   | Some version \<Rightarrow>
                       bnd (get_storage_account env a)
                         (\<lambda>_. ret \<lparr>vr_location = location,
                                   vr_network_interfaces = network_interfaces,
                                   vr_storage_blob_name = storage_blob_name,
                                   vr_image_version =
                                     (if v_image_version a = ''latest'' then version
                                      else v_image_version a)\<rparr>))))"

text \<open>Lines 207--233.\<close>

definition vm_resolve :: "vm_env \<Rightarrow> vm_args \<Rightarrow> vm_resolved prog" where
  "vm_resolve env a =
     bnd (bnd (invoke (GetResourceGroup (v_resource_group a))
                 (\<lambda>tr. vm_get_resource_group env tr (v_resource_group a))) helper)
       (\<lambda>resource_group.
          let location = (if truthy_str (v_location a) then v_location a
                          else Some (rg_location resource_group))
          in if v_state a = Started then vm_resolve_started env a location
             else ret \<lparr>vr_location = location, vr_network_interfaces = [],
                       vr_storage_blob_name = v_storage_blob_name a,
                       vr_image_version = v_image_version a\<rparr>)"

text \<open>The local variables \<^verbatim>\<open>changed\<close> and \<^verbatim>\<open>vm\<close> after the \<^verbatim>\<open>try\<close> statement
  (\<^verbatim>\<open>results\<close> stays the empty dictionary), with what lines 207--233 resolved.\<close>

record vm_decision =
  vmd_changed :: bool
  vmd_vm :: "virtual_machine option"
  vmd_resolved :: vm_resolved

text \<open>Lines 202--259: resolve, fetch and decide.  For a virtual machine that exists,
  \<^verbatim>\<open>changed\<close> is set for \<^verbatim>\<open>started\<close> with \<^verbatim>\<open>force\<close> and for \<^verbatim>\<open>absent\<close>; the branch
  for \<^verbatim>\<open>started\<close> without \<^verbatim>\<open>force\<close> only logs.\<close>

definition vm_decide :: "vm_env \<Rightarrow> vm_args \<Rightarrow> vm_decision prog" where
  "vm_decide env a =
     bnd (vm_resolve env a)
       (\<lambda>rs. bnd (invoke (VmGet (v_resource_group a) (v_name a))
                    (\<lambda>tr. virtual_machines_get env tr (v_resource_group a) (v_name a)))
          (\<lambda>r. case r of
             Inl e \<Rightarrow>
               if e = CloudError
               then ret \<lparr>vmd_changed = (v_state a = Started), vmd_vm = None,
                         vmd_resolved = rs\<rparr>
               else raise e
           | Inr vm \<Rightarrow>
               if \<not> vm_provisioning_ok env vm then fail (ProvisioningStateError (vm_name vm))
               else if v_state a = Started \<and> v_force a then
                 ret \<lparr>vmd_changed = True, vmd_vm = Some vm, vmd_resolved = rs\<rparr>
               else if v_state a = Started then
                 ret \<lparr>vmd_changed = False, vmd_vm = Some vm, vmd_resolved = rs\<rparr>
               else if v_state a = Stopped then
                 ret \<lparr>vmd_changed = False, vmd_vm = Some vm, vmd_resolved = rs\<rparr>
               else if v_state a = Absent then
                 ret \<lparr>vmd_changed = True, vmd_vm = Some vm, vmd_resolved = rs\<rparr>
               else ret \<lparr>vmd_changed = False, vmd_vm = Some vm, vmd_resolved = rs\<rparr>))"

subsection \<open>Deleting a virtual machine\<close>

text \<open>The loops of lines 373--375 and 382--385: the part of each id that
  \<^verbatim>\<open>azure_id_to_dict\<close> files under the key; a missing key raises \<^verbatim>\<open>KeyError\<close>.\<close>

fun names_from_ids ::
  "(string \<Rightarrow> (string \<rightharpoonup> string)) \<Rightarrow> string \<Rightarrow> string list \<Rightarrow> exn + string list" where
  "names_from_ids id_to_dict k [] = Inr []"
| "names_from_ids id_to_dict k (i # ids) =
     (case id_to_dict i k of
        None \<Rightarrow> Inl KeyError
      | Some nm \<Rightarrow>
          (case names_from_ids id_to_dict k ids of
             Inl e \<Rightarrow> Inl e
           | Inr nms \<Rightarrow> Inr (nm # nms)))"

text \<open>Lines 380--385: each network interface is fetched, and the names of the public IP
  addresses of its IP configurations are collected.\<close>

fun capture_public_ips :: "vm_env \<Rightarrow> vm_args \<Rightarrow> string list \<Rightarrow> string list prog" where
  "capture_public_ips env a [] = ret []"
| "capture_public_ips env a (nm # nms) =
     bnd (get_network_interface env a nm)
       (\<lambda>nic. case names_from_ids (vm_azure_id_to_dict env) ''publicIPAddresses''
                     (List.map_filter ipc_public_ip_address (ni_ip_configurations nic)) of
          Inl e \<Rightarrow> raise e
        | Inr pips \<Rightarrow> bnd (capture_public_ips env a nms) (\<lambda>more. ret (pips @ more)))"

text \<open>The lists \<^verbatim>\<open>vhd_uris\<close>, \<^verbatim>\<open>nic_names\<close> and \<^verbatim>\<open>pip_names\<close>.\<close>

record vm_captured =
  cap_vhd_uris :: "string list"
  cap_nic_names :: "string list"
  cap_pip_names :: "string list"

text \<open>Lines 361--366: the address of the disk is read from \<^verbatim>\<open>vm\<close>.\<close>

definition capture_vhd_uris ::
  "vm_env \<Rightarrow> vm_args \<Rightarrow> vm_module_results \<Rightarrow> (string list \<times> vm_module_results) prog" where
  "capture_vhd_uris env a res =
     (if v_delete_virtual_storage a then
        (case global_vm env of
           None \<Rightarrow> raise NameError
         | Some vm \<Rightarrow>
             (case vo_vhd_uri vm of
                Inl e \<Rightarrow> raise e
              | Inr uri \<Rightarrow> ret ([uri], res\<lparr>deleted_vhd_uris := Some [uri]\<rparr>)))
      else ret ([], res))"

text \<open>Lines 370--377: the names of the network interfaces are read from \<^verbatim>\<open>vm\<close>.\<close>

definition capture_nic_names :: "vm_env \<Rightarrow> string list prog" where
  "capture_nic_names env =
     (case global_vm env of
        None \<Rightarrow> raise NameError
      | Some vm \<Rightarrow>
          (case vo_network_interfaces vm of
             Inl e \<Rightarrow> raise e
           | Inr ids \<Rightarrow>
               (case names_from_ids (vm_azure_id_to_dict env) ''networkInterfaces'' ids of
                  Inl e \<Rightarrow> raise e
                | Inr nms \<Rightarrow> ret nms)))"

text \<open>Lines 357--387 of \<^verbatim>\<open>delete_vm\<close>: what is stored before anything is deleted.\<close>

definition delete_vm_capture ::
  "vm_env \<Rightarrow> vm_args \<Rightarrow> vm_module_results \<Rightarrow> (vm_captured \<times> vm_module_results) prog" where
  "delete_vm_capture env a res =
     bnd (capture_vhd_uris env a res)
       (\<lambda>(vhd_uris, res1).
          if v_delete_network_interfaces a then
            bnd (capture_nic_names env)
              (\<lambda>nic_names.
                 let res2 = res1\<lparr>deleted_network_interfaces := Some nic_names\<rparr>
                 in if v_delete_public_ips a then
                      bnd (capture_public_ips env a nic_names)
                        (\<lambda>pip_names.
                           ret (\<lparr>cap_vhd_uris = vhd_uris, cap_nic_names = nic_names,
                                 cap_pip_names = pip_names\<rparr>,
                                res2\<lparr>deleted_public_ips := Some pip_names\<rparr>))
                    else ret (\<lparr>cap_vhd_uris = vhd_uris, cap_nic_names = nic_names,
                               cap_pip_names = []\<rparr>, res2))
          else ret (\<lparr>cap_vhd_uris = vhd_uris, cap_nic_names = [], cap_pip_names = []\<rparr>, res1))"

text \<open>\<^verbatim>\<open>delete_nic\<close> of this module, lines 418--426, and the loop of lines 402--403.\<close>

definition vm_delete_nic :: "vm_env \<Rightarrow> vm_args \<Rightarrow> string \<Rightarrow> unit prog" where
  "vm_delete_nic env a nm =
     bnd (invoke (NicDelete (v_resource_group a) nm)
            (\<lambda>tr. vm_network_interfaces_delete env tr (v_resource_group a) nm))
       (\<lambda>r. case r of
          Inl e \<Rightarrow> fail (VmErrorDeletingNic nm e)
        | Inr poller \<Rightarrow> helper poller)"

fun delete_nics :: "vm_env \<Rightarrow> vm_args \<Rightarrow> string list \<Rightarrow> unit prog" where
  "delete_nics env a [] = ret ()"
| "delete_nics env a (nm # nms) = bnd (vm_delete_nic env a nm) (\<lambda>_. delete_nics env a nms)"

text \<open>\<^verbatim>\<open>delete_pip\<close>, lines 428--435, and the loop of lines 407--408.\<close>

definition delete_pip :: "vm_env \<Rightarrow> vm_args \<Rightarrow> string \<Rightarrow> unit prog" where
  "delete_pip env a nm =
     bnd (invoke (PublicIpDelete (v_resource_group a) nm)
            (\<lambda>tr. public_ip_addresses_delete env tr (v_resource_group a) nm))
       (\<lambda>r. case r of
          Inl e \<Rightarrow> fail (VmErrorDeletingPip nm e)
        | Inr poller \<Rightarrow> helper poller)"

fun delete_pips :: "vm_env \<Rightarrow> vm_args \<Rightarrow> string list \<Rightarrow> unit prog" where
  "delete_pips env a [] = ret ()"
| "delete_pips env a (nm # nms) = bnd (delete_pip env a nm) (\<lambda>_. delete_pips env a nms)"

text \<open>
  Lines 389--409 of \<^verbatim>\<open>delete_vm\<close>: the virtual machine is deleted, then what was stored.
  \<^verbatim>\<open>exec_module_impl\<close> has set the attribute \<^verbatim>\<open>self.delete_virtual_storage\<close> to the
  Boolean argument of that name, so the attribute hides the method
  \<^verbatim>\<open>delete_virtual_storage\<close> (lines 437--451), and line 398 calls \<^verbatim>\<open>True\<close>, which
  raises \<^verbatim>\<open>TypeError\<close>.  The method is the only place that deletes a blob.
\<close>

definition delete_vm_cascade :: "vm_env \<Rightarrow> vm_args \<Rightarrow> vm_captured \<Rightarrow> unit prog" where
  "delete_vm_cascade env a cap =
     bnd (invoke (VmDelete (v_resource_group a) (v_name a))
            (\<lambda>tr. virtual_machines_delete env tr (v_resource_group a) (v_name a)))
       (\<lambda>r. case r of
          Inl e \<Rightarrow> fail (VmErrorDeletingVm (v_name a) e)
        | Inr _ \<Rightarrow>
            bnd (if v_delete_virtual_storage a then raise TypeError else ret ())
              (\<lambda>_. bnd (if v_delete_network_interfaces a
                         then delete_nics env a (cap_nic_names cap) else ret ())
                 (\<lambda>_. if v_delete_public_ips a
                       then delete_pips env a (cap_pip_names cap) else ret ())))"

text \<open>\<^verbatim>\<open>delete_vm\<close>, lines 356--409; the result is \<^verbatim>\<open>self.results\<close> with the keys that
  the method has added.\<close>

definition delete_vm :: "vm_env \<Rightarrow> vm_args \<Rightarrow> vm_module_results \<Rightarrow> vm_module_results prog" where
  "delete_vm env a res =
     bnd (delete_vm_capture env a res)
       (\<lambda>(cap, res'). bnd (delete_vm_cascade env a cap) (\<lambda>_. ret res'))"

subsection \<open>Creating a virtual machine\<close>

text \<open>Lines 289--329: the object that is sent.\<close>

definition vm_resource :: "vm_args \<Rightarrow> vm_resolved \<Rightarrow> virtual_machine" where
  "vm_resource a rs =
     \<lparr>vm_location = vr_location rs, vm_name = v_name a, vm_tags = v_tags a,
      vm_admin_username = v_admin_username a, vm_admin_password = v_admin_password a,
      vm_computer_name = v_short_hostname a, vm_vm_size = v_vm_size a,
      vm_os_disk_name = vr_storage_blob_name rs,
      vm_vhd_uri = (v_storage_account_name a, v_storage_container_name a,
                    vr_storage_blob_name rs),
      vm_os_disk_caching = v_os_disk_caching a,
      vm_image_publisher = v_image_publisher a, vm_image_offer = v_image_offer a,
      vm_image_sku = v_image_sku a, vm_image_version = vr_image_version rs,
      vm_network_interfaces = vr_network_interfaces rs\<rparr>"

text \<open>\<^verbatim>\<open>create_vm\<close>, lines 480--486.\<close>

definition create_vm :: "vm_env \<Rightarrow> vm_args \<Rightarrow> virtual_machine \<Rightarrow> virtual_machine prog" where
  "create_vm env a params =
     bnd (invoke (VmCreateOrUpdate (v_resource_group a) (v_name a) params)
            (\<lambda>tr. virtual_machines_create_or_update env tr (v_resource_group a) (v_name a)
                     params))
       (\<lambda>r. case r of
          Inl e \<Rightarrow> fail (VmErrorCreatingOrUpdating (v_name a) e)
        | Inr poller \<Rightarrow> helper poller)"

text \<open>Lines 267--354.  There is no branch for \<^verbatim>\<open>absent\<close> or \<^verbatim>\<open>stopped\<close>.\<close>

definition vm_apply ::
  "vm_env \<Rightarrow> vm_args \<Rightarrow> vm_decision \<Rightarrow> vm_module_results \<Rightarrow> vm_module_results prog" where
  "vm_apply env a d res =
     (if vmd_changed d then
        bnd (if v_state a = Started \<and> v_force a
             then bnd (delete_vm env a res) (\<lambda>res'. ret (None, res'))
             else ret (vmd_vm d, res))
          (\<lambda>(vm, res').
             if v_state a = Started then
               (case vm of
                  None \<Rightarrow>
                    bnd (create_vm env a (vm_resource a (vmd_resolved d)))
                      (\<lambda>new. ret (res'\<lparr>results := Dict new\<rparr>))
                | Some _ \<Rightarrow> ret res')
             else ret res')
      else ret res)"

text \<open>\<^verbatim>\<open>AzureRMVirtualMachine.exec_module_impl\<close>, lines 197--354; \<open>cm\<close> is
  \<^verbatim>\<open>self.check_mode\<close>, and \<open>vm_report\<close> is \<^verbatim>\<open>self.results\<close> after lines 261--262
  (the local \<^verbatim>\<open>results\<close> is still the empty dictionary).\<close>

definition vm_report :: "bool \<Rightarrow> vm_decision \<Rightarrow> vm_module_results" where
  "vm_report cm d =
     \<lparr>changed = vmd_changed d, check_mode = cm, results = EmptyDict,
      deleted_vhd_uris = None, deleted_network_interfaces = None, deleted_public_ips = None\<rparr>"

definition vm_exec_module_impl :: "vm_env \<Rightarrow> bool \<Rightarrow> vm_args \<Rightarrow> vm_module_results prog" where
  "vm_exec_module_impl env cm a =
     bnd (vm_decide env a)
       (\<lambda>d. if cm then ret (vm_report cm d) else vm_apply env a d (vm_report cm d))"

section \<open>Notions used in the properties\<close>

text \<open>A piece of a module that issues no provider mutation: the mutations in the log
  after it are those before it.\<close>

definition reads_only :: "'a prog \<Rightarrow> bool" where
  "reads_only m = (\<forall>tr. mutations (snd (m tr)) = mutations tr)"

text \<open>The place of a call in the cascade of \<^verbatim>\<open>delete_vm\<close>: fetching a network interface
  (to store the names of its public IP addresses), deleting the virtual machine, deleting
  a disk blob, deleting a network interface, deleting a public IP address; \<open>5\<close> for every
  other call.\<close>

fun cascade_phase :: "call \<Rightarrow> nat" where
  "cascade_phase (NicGet _ _) = 0"
| "cascade_phase (VmDelete _ _) = 1"
| "cascade_phase (BlobDelete _ _) = 2"
| "cascade_phase (NicDelete _ _) = 3"
| "cascade_phase (PublicIpDelete _ _) = 4"
| "cascade_phase _ = 5"

subsection \<open>Example resources and providers\<close>

text \<open>The resource group \<^verbatim>\<open>Testing\<close> in \<^verbatim>\<open>eastus2\<close> with the tags \<^verbatim>\<open>{a: 1}\<close>, and a
  provider that has it, deletes on request and answers a create-or-update with the
  resource group as submitted.\<close>

definition ex_rg :: resource_group where
  "ex_rg = \<lparr>rg_id = ''/resourceGroups/Testing'', rg_name = ''Testing'',
            rg_location = ''eastus2'', rg_tags = Some [''a'' \<mapsto> ''1''],
            rg_provisioning_state = ''Succeeded''\<rparr>"

definition ex_rg_env :: rg_env where
  "ex_rg_env =
     \<lparr>resource_groups_get = (\<lambda>tr nm. Inr ex_rg),
      resource_groups_create_or_update =
        (\<lambda>tr nm p. Inr (ex_rg\<lparr>rg_location := (case rgp_location p of None \<Rightarrow> [] | Some l \<Rightarrow> l),
                               rg_tags := rgp_tags p\<rparr>)),
      resource_groups_delete = (\<lambda>tr nm. Inr (Inr ())),
      rg_provisioning_ok = (\<lambda>rg. True),
      rg_item_access = True\<rparr>"

definition ex_rg_args :: rg_args where
  "ex_rg_args = \<lparr>a_name = ''Testing'', a_state = Present, a_location = Some ''eastus2'',
                 a_tags = None, a_force = False\<rparr>"

text \<open>The network interface \<^verbatim>\<open>nic003\<close> with the tags \<^verbatim>\<open>{a: 1}\<close>, and a provider that
  has it and the resources of the example of the module's documentation.\<close>

definition ex_subnet :: subnet where
  "ex_subnet = \<lparr>sn_id = ''/subnets/subnet001'', sn_name = ''subnet001''\<rparr>"

definition ex_public_ip :: public_ip where
  "ex_public_ip = \<lparr>pip_id = ''/publicIPAddresses/publicip001'', pip_name = ''publicip001'',
                   pip_location = ''eastus2'', pip_resource_guid = ''guid-1''\<rparr>"

definition ex_nsg :: security_group where
  "ex_nsg = \<lparr>nsg_id = ''/networkSecurityGroups/secgroup001'', nsg_name = ''secgroup001'',
             nsg_location = ''eastus2'', nsg_resource_guid = ''guid-2''\<rparr>"

definition ex_nic :: network_interface where
  "ex_nic =
     \<lparr>ni_id = ''/networkInterfaces/nic003'', ni_name = ''nic003'',
      ni_type = ''Microsoft.Network/networkInterfaces'', ni_location = Some ''eastus2'',
      ni_tags = Some [''a'' \<mapsto> ''1''], ni_network_security_group = None,
      ni_ip_configurations =
        [\<lparr>ipc_name = ''default'', ipc_private_ip_address = Some ''10.1.0.10'',
          ipc_private_ip_allocation_method = ''Dynamic'', ipc_subnet = None,
          ipc_public_ip_address = Some ''/publicIPAddresses/publicip001''\<rparr>]\<rparr>"

definition ex_id_to_dict :: "string \<Rightarrow> (string \<rightharpoonup> string)" where
  "ex_id_to_dict i =
     (if i = ''/networkInterfaces/nic003'' then [''networkInterfaces'' \<mapsto> ''nic003'']
      else if i = ''/publicIPAddresses/publicip001''
      then [''publicIPAddresses'' \<mapsto> ''publicip001'']
      else Map.empty)"

definition ex_nic_of_params :: "nic_params \<Rightarrow> network_interface" where
  "ex_nic_of_params p =
     \<lparr>ni_id = ''/networkInterfaces/nic003'', ni_name = np_name p,
      ni_type = ''Microsoft.Network/networkInterfaces'', ni_location = np_location p,
      ni_tags = np_tags p, ni_network_security_group = None,
      ni_ip_configurations =
        [\<lparr>ipc_name = np_ipc_name p, ipc_private_ip_address = np_private_ip_address p,
          ipc_private_ip_allocation_method = np_private_ip_allocation_method p,
          ipc_subnet = None,
          ipc_public_ip_address = map_option pip_id (np_public_ip_address p)\<rparr>]\<rparr>"

definition ex_nic_env :: nic_env where
  "ex_nic_env =
     \<lparr>nic_get_resource_group = (\<lambda>tr nm. Inr ex_rg),
      subnets_get = (\<lambda>tr g v s. Inr ex_subnet),
      public_ip_addresses_get = (\<lambda>tr g nm. Inr ex_public_ip),
      network_security_groups_get = (\<lambda>tr g nm. Inr ex_nsg),
      network_interfaces_get = (\<lambda>tr g nm. Inr ex_nic),
      network_interfaces_create_or_update = (\<lambda>tr g nm p. Inr (Inr (ex_nic_of_params p))),
      network_interfaces_delete = (\<lambda>tr g nm. Inr (Inr ())),
      nic_provisioning_ok = (\<lambda>nic. True),
      azure_id_to_dict = ex_id_to_dict\<rparr>"

definition ex_nic_args :: nic_args where
  "ex_nic_args =
     \<lparr>n_resource_group = ''Testing'', n_name = ''nic003'', n_location = None,
      n_security_group_name = Some ''secgroup001'', n_state = Present,
      n_private_ip_address = None, n_private_ip_allocation_method = ''Dynamic'',
      n_public_ip_address_name = Some ''publicip001'', n_subnet_name = Some ''subnet001'',
      n_virtual_network_name = Some ''vnet001'', n_tags = None\<rparr>"

text \<open>The virtual machine \<^verbatim>\<open>testvm002\<close> of the module's documentation, and a provider
  that has no such machine, offers the one size \<^verbatim>\<open>Standard_D1\<close> in the location, and
  answers a create-or-update with the machine as submitted.\<close>

definition ex_vm_args :: vm_args where
  "ex_vm_args =
     \<lparr>v_resource_group = ''Testing'', v_name = ''testvm002'', v_state = Started,
      v_location = None, v_short_hostname = Some ''testvm'', v_vm_size = ''Standard_D1'',
      v_force = False, v_admin_username = Some ''chouseknecht'',
      v_admin_password = Some ''secret'', v_image_publisher = Some ''OpenLogic'',
      v_image_offer = Some ''CentOS'', v_image_sku = Some ''7.1'',
      v_image_version = ''latest'', v_storage_account_name = Some ''testaccount001'',
      v_storage_container_name = Some ''testvm001'', v_storage_blob_name = None,
      v_os_disk_caching = ''ReadOnly'', v_network_interface_names = Some [''nic003''],
      v_delete_network_interfaces = False, v_delete_virtual_storage = False,
      v_delete_public_ips = False, v_tags = None\<rparr>"

definition ex_vm_env :: vm_env where
  "ex_vm_env =
     \<lparr>vm_get_resource_group = (\<lambda>tr nm. Inr ex_rg),
      virtual_machine_sizes_list = (\<lambda>tr l. Inr [''Standard_D1'']),
      vm_network_interfaces_get = (\<lambda>tr g nm. Inr ex_nic),
      virtual_machine_images_list = (\<lambda>tr l p f s. Inr [''7.1.20160308'']),
      storage_accounts_get_properties = (\<lambda>tr g nm. Inr ()),
      virtual_machines_get = (\<lambda>tr g nm. Inl CloudError),
      virtual_machines_create_or_update = (\<lambda>tr g nm p. Inr (Inr p)),
      virtual_machines_delete = (\<lambda>tr g nm. Inr ()),
      vm_network_interfaces_delete = (\<lambda>tr g nm. Inr (Inr ())),
      public_ip_addresses_delete = (\<lambda>tr g nm. Inr (Inr ())),
      vm_provisioning_ok = (\<lambda>vm. True),
      vm_azure_id_to_dict = ex_id_to_dict,
      global_vm = None\<rparr>"

text \<open>The machine as the provider reports it once it exists.\<close>

definition ex_vm :: virtual_machine where
  "ex_vm =
     \<lparr>vm_location = Some ''eastus2'', vm_name = ''testvm002'', vm_tags = None,
      vm_admin_username = Some ''chouseknecht'', vm_admin_password = None,
      vm_computer_name = Some ''testvm'', vm_vm_size = ''Standard_D1'',
      vm_os_disk_name = Some ''testvm002.vsd'',
      vm_vhd_uri = (Some ''testaccount001'', Some ''testvm001'', Some ''testvm002.vsd''),
      vm_os_disk_caching = ''ReadOnly'', vm_image_publisher = Some ''OpenLogic'',
      vm_image_offer = Some ''CentOS'', vm_image_sku = Some ''7.1'',
      vm_image_version = ''7.1.20160308'',
      vm_network_interfaces = [''/networkInterfaces/nic003'']\<rparr>"

text \<open>An object for the name \<^verbatim>\<open>vm\<close> in \<^verbatim>\<open>delete_vm\<close>, for the providers in which the
  name is bound, and \<^verbatim>\<open>self.results\<close> as \<^verbatim>\<open>delete_vm\<close> finds it.\<close>

definition ex_vm_object :: vm_object where
  "ex_vm_object =
     \<lparr>vo_vhd_uri = Inr ''https://testaccount001.blob.core.windows.net/testvm001/testvm002.vsd.vhd'',
      vo_network_interfaces = Inr [''/networkInterfaces/nic003'']\<rparr>"

definition ex_vm_results :: vm_module_results where
  "ex_vm_results =
     \<lparr>changed = True, check_mode = False, results = EmptyDict, deleted_vhd_uris = None,
      deleted_network_interfaces = None, deleted_public_ips = None\<rparr>"

section \<open>Properties\<close>

subsection \<open>Runs and their logs\<close>

lemmas prog_defs = ret_def fail_def raise_def bnd_def invoke_def helper_def

lemma reads_only_ret: "reads_only (ret x)"
  by (simp add: reads_only_def ret_def)

lemma reads_only_fail: "reads_only (fail m)"
  by (simp add: reads_only_def fail_def)

lemma reads_only_raise: "reads_only (raise e)"
  by (simp add: reads_only_def raise_def)

lemma reads_only_helper: "reads_only (helper r)"
  by (simp add: reads_only_def helper_def)

lemma reads_only_invoke: "\<not> is_mutation c \<Longrightarrow> reads_only (invoke c f)"
  by (simp add: reads_only_def invoke_def mutations_def)

lemma reads_only_bnd:
  assumes "reads_only m" and "\<And>x. reads_only (k x)"
  shows "reads_only (bnd m k)"
  unfolding reads_only_def
proof
  fix tr
  show "mutations (snd (bnd m k tr)) = mutations tr"
  proof (cases "m tr")
    case (Pair r tr')
    with assms(1) have eq: "mutations tr' = mutations tr"
      by (metis reads_only_def snd_conv)
    show ?thesis
    proof (cases r)
      case (Inl f)
      with Pair eq show ?thesis by (simp add: bnd_def)
    next
      case (Inr x)
      with Pair eq assms(2)[of x] show ?thesis
        by (simp add: bnd_def reads_only_def)
    qed
  qed
qed

lemmas reads_only_intros =
  reads_only_ret reads_only_fail reads_only_raise reads_only_helper reads_only_invoke reads_only_bnd

subsection \<open>The decision steps issue no mutation\<close>

lemma reads_only_rg_decide: "reads_only (rg_decide env a)"
  by (auto simp: rg_decide_def rg_diff_def Let_def intro!: reads_only_intros split: sum.split)

lemma reads_only_when_named: "(\<And>x. reads_only (look x)) \<Longrightarrow> reads_only (when_named nm look)"
  by (auto simp: when_named_def intro!: reads_only_intros split: option.split)

lemma reads_only_get_public_ip_address: "reads_only (get_public_ip_address env a nm)"
  by (auto simp: get_public_ip_address_def intro!: reads_only_intros split: sum.split)

lemma reads_only_get_subnet: "reads_only (get_subnet env a)"
  by (auto simp: get_subnet_def intro!: reads_only_intros split: sum.split)

lemma reads_only_get_security_group: "reads_only (get_security_group env a nm)"
  by (auto simp: get_security_group_def intro!: reads_only_intros split: sum.split)

lemma reads_only_nic_resolve: "reads_only (nic_resolve env a)"
  by (auto simp: nic_resolve_def Let_def
      intro!: reads_only_intros reads_only_when_named reads_only_get_public_ip_address
        reads_only_get_subnet reads_only_get_security_group)

lemma reads_only_nic_diff: "reads_only (nic_diff env a refs nic)"
  by (auto simp: nic_diff_def diff_public_ip_def Let_def intro!: reads_only_intros
      split: sum.split option.split)

lemma reads_only_nic_decide: "reads_only (nic_decide env a)"
  by (auto simp: nic_decide_def intro!: reads_only_intros reads_only_nic_resolve reads_only_nic_diff
      split: sum.split)

lemma reads_only_get_network_interface: "reads_only (get_network_interface env a nm)"
  by (auto simp: get_network_interface_def intro!: reads_only_intros split: sum.split)

lemma reads_only_fetch_interfaces: "reads_only (fetch_interfaces env a nms)"
  by (induction nms) (auto intro!: reads_only_intros reads_only_get_network_interface)

lemma reads_only_vm_resolve_started: "reads_only (vm_resolve_started env a loc)"
  by (auto simp: vm_resolve_started_def vm_size_is_valid_def get_image_version_def
        get_storage_account_def Let_def
      intro!: reads_only_intros reads_only_fetch_interfaces split: sum.split option.split)

lemma reads_only_vm_resolve: "reads_only (vm_resolve env a)"
  by (auto simp: vm_resolve_def Let_def intro!: reads_only_intros reads_only_vm_resolve_started)

lemma reads_only_vm_decide: "reads_only (vm_decide env a)"
  by (auto simp: vm_decide_def intro!: reads_only_intros reads_only_vm_resolve split: sum.split)


lemma bnd_Inr_iff:
  "bnd m k tr = (Inr y, tr') \<longleftrightarrow> (\<exists>x tr1. m tr = (Inr x, tr1) \<and> k x tr1 = (Inr y, tr'))"
  by (auto simp: bnd_def split: prod.splits sum.splits)

lemma check_run_eq:
  "bnd m (\<lambda>d. ret (f d)) tr = (map_sum id f (fst (m tr)), snd (m tr))"
  by (cases "m tr") (auto simp: bnd_def ret_def split: sum.splits)

text \<open>The apply step never writes the \<^verbatim>\<open>changed\<close> flag.\<close>

lemma delete_resource_group_changed:
  "delete_resource_group env a res tr = (Inr r, tr') \<Longrightarrow> changed r = changed res"
  by (auto simp: delete_resource_group_def prog_defs split: sum.splits)

lemma rg_apply_present_changed:
  "rg_apply_present env a rg res tr = (Inr r, tr') \<Longrightarrow> changed r = changed res"
  by (auto simp: rg_apply_present_def create_or_update_resource_group_def prog_defs
      split: sum.splits option.splits if_splits prod.splits)

lemma rg_apply_changed:
  assumes "rg_apply env a d res tr = (Inr r, tr')"
  shows "changed r = changed res"
proof (cases "rgd_changed d")
  case False
  with assms show ?thesis by (simp add: rg_apply_def ret_def)
next
  case True
  with assms obtain rg res1 tr1 where
    first: "(if a_state a = Present \<and> a_force a
             then bnd (delete_resource_group env a res) (\<lambda>res'. ret (None, res'))
             else ret (rgd_rg d, res)) tr = (Inr (rg, res1), tr1)"
    and rest: "(if a_state a = Present then rg_apply_present env a rg res1
                else if a_state a = Absent then delete_resource_group env a res1
                else ret res1) tr1 = (Inr r, tr')"
    by (auto simp: rg_apply_def bnd_Inr_iff)
  from first have "changed res1 = changed res"
    by (auto simp: bnd_Inr_iff ret_def dest: delete_resource_group_changed split: if_splits)
  moreover from rest have "changed r = changed res1"
    by (auto simp: ret_def dest: delete_resource_group_changed rg_apply_present_changed
        split: if_splits)
  ultimately show ?thesis by simp
qed

lemma rg_run_changed:
  assumes "rg_exec_module_impl env False a tr = (Inr r, tr')"
  shows "\<exists>d. fst (rg_decide env a tr) = Inr d \<and> changed r = rgd_changed d"
proof -
  from assms obtain d tr1 where d: "rg_decide env a tr = (Inr d, tr1)"
    and ap: "rg_apply env a d (rg_report False d) tr1 = (Inr r, tr')"
    by (auto simp: rg_exec_module_impl_def bnd_Inr_iff)
  from rg_apply_changed[OF ap] have "changed r = rgd_changed d"
    by (simp add: rg_report_def)
  with d show ?thesis by simp
qed

lemma nic_apply_changed:
  assumes "nic_apply env a d res tr = (Inr r, tr')"
  shows "changed r = changed res"
  using assms
  by (auto simp: nic_apply_def delete_nic_def bnd_Inr_iff ret_def invoke_def helper_def fail_def
      split: if_splits sum.splits)

lemma nic_run_changed:
  assumes "nic_exec_module_impl env False a tr = (Inr r, tr')"
  shows "\<exists>d. fst (nic_decide env a tr) = Inr d \<and> changed r = nicd_changed d"
proof -
  from assms obtain d tr1 where d: "nic_decide env a tr = (Inr d, tr1)"
    and ap: "nic_apply env a d (nic_report False d) tr1 = (Inr r, tr')"
    by (auto simp: nic_exec_module_impl_def bnd_Inr_iff)
  from nic_apply_changed[OF ap] have "changed r = nicd_changed d"
    by (simp add: nic_report_def)
  with d show ?thesis by simp
qed

lemma delete_vm_capture_changed:
  "delete_vm_capture env a res tr = (Inr (cap, r), tr') \<Longrightarrow> changed r = changed res"
  by (auto simp: delete_vm_capture_def capture_vhd_uris_def bnd_Inr_iff ret_def raise_def Let_def
      split: if_splits option.splits sum.splits)

lemma delete_vm_changed:
  "delete_vm env a res tr = (Inr r, tr') \<Longrightarrow> changed r = changed res"
  by (auto simp: delete_vm_def bnd_Inr_iff ret_def dest: delete_vm_capture_changed)

lemma vm_apply_changed:
  assumes "vm_apply env a d res tr = (Inr r, tr')"
  shows "changed r = changed res"
  using assms
  by (auto simp: vm_apply_def bnd_Inr_iff ret_def dest: delete_vm_changed
      split: if_splits option.splits)

lemma vm_run_changed:
  assumes "vm_exec_module_impl env False a tr = (Inr r, tr')"
  shows "\<exists>d. fst (vm_decide env a tr) = Inr d \<and> changed r = vmd_changed d"
proof -
  from assms obtain d tr1 where d: "vm_decide env a tr = (Inr d, tr1)"
    and ap: "vm_apply env a d (vm_report False d) tr1 = (Inr r, tr')"
    by (auto simp: vm_exec_module_impl_def bnd_Inr_iff)
  from vm_apply_changed[OF ap] have "changed r = vmd_changed d"
    by (simp add: vm_report_def)
  with d show ?thesis by simp
qed

subsection \<open>Check mode\<close>

lemma rg_check_run:
  "case rg_decide env a tr of
     (Inl f, t1) \<Rightarrow> rg_exec_module_impl env True a tr = (Inl f, t1)
   | (Inr d, t1) \<Rightarrow>
       rg_exec_module_impl env True a tr =
         (Inr \<lparr>changed = rgd_changed d, check_mode = True, results = rgd_results d\<rparr>, t1)"
  by (auto simp: rg_exec_module_impl_def bnd_def ret_def rg_report_def
      split: prod.splits sum.splits)

lemma rg_apply_run:
  "rg_exec_module_impl env False a tr =
     (case rg_decide env a tr of
        (Inl f, t1) \<Rightarrow> (Inl f, t1)
      | (Inr d, t1) \<Rightarrow>
          rg_apply env a d
            \<lparr>changed = rgd_changed d, check_mode = False, results = rgd_results d\<rparr> t1)"
  by (auto simp: rg_exec_module_impl_def bnd_def rg_report_def
      split: prod.splits sum.splits)

lemma nic_check_run:
  "case nic_decide env a tr of
     (Inl f, t1) \<Rightarrow> nic_exec_module_impl env True a tr = (Inl f, t1)
   | (Inr d, t1) \<Rightarrow>
       nic_exec_module_impl env True a tr =
         (Inr \<lparr>changed = nicd_changed d, check_mode = True,
               results = (case nicd_found d of None \<Rightarrow> EmptyDict | Some (nic, res) \<Rightarrow> Dict res)\<rparr>,
          t1)"
  by (auto simp: nic_exec_module_impl_def bnd_def ret_def nic_report_def nicd_results_def
      split: prod.splits sum.splits)

lemma nic_apply_run:
  "nic_exec_module_impl env False a tr =
     (case nic_decide env a tr of
        (Inl f, t1) \<Rightarrow> (Inl f, t1)
      | (Inr d, t1) \<Rightarrow>
          nic_apply env a d
            \<lparr>changed = nicd_changed d, check_mode = False,
             results = (case nicd_found d of None \<Rightarrow> EmptyDict | Some (nic, res) \<Rightarrow> Dict res)\<rparr>
            t1)"
  by (auto simp: nic_exec_module_impl_def bnd_def nic_report_def nicd_results_def
      split: prod.splits sum.splits)

lemma vm_check_run:
  "case vm_decide env a tr of
     (Inl f, t1) \<Rightarrow> vm_exec_module_impl env True a tr = (Inl f, t1)
   | (Inr d, t1) \<Rightarrow>
       vm_exec_module_impl env True a tr =
         (Inr \<lparr>changed = vmd_changed d, check_mode = True, results = EmptyDict,
               deleted_vhd_uris = None, deleted_network_interfaces = None,
               deleted_public_ips = None\<rparr>, t1)"
  by (auto simp: vm_exec_module_impl_def bnd_def ret_def vm_report_def
      split: prod.splits sum.splits)

lemma vm_apply_run:
  "vm_exec_module_impl env False a tr =
     (case vm_decide env a tr of
        (Inl f, t1) \<Rightarrow> (Inl f, t1)
      | (Inr d, t1) \<Rightarrow>
          vm_apply env a d
            \<lparr>changed = vmd_changed d, check_mode = False, results = EmptyDict,
             deleted_vhd_uris = None, deleted_network_interfaces = None,
             deleted_public_ips = None\<rparr> t1)"
  by (auto simp: vm_exec_module_impl_def bnd_def vm_report_def
      split: prod.splits sum.splits)

lemma rg_check_pure: "mutations (snd (rg_exec_module_impl env True a tr)) = mutations tr"
  using reads_only_rg_decide[of env a]
  by (simp add: rg_exec_module_impl_def check_run_eq reads_only_def)

lemma nic_check_pure: "mutations (snd (nic_exec_module_impl env True a tr)) = mutations tr"
  using reads_only_nic_decide[of env a]
  by (simp add: nic_exec_module_impl_def check_run_eq reads_only_def)

lemma vm_check_pure: "mutations (snd (vm_exec_module_impl env True a tr)) = mutations tr"
  using reads_only_vm_decide[of env a]
  by (simp add: vm_exec_module_impl_def check_run_eq reads_only_def)

text \<open>
  Claim C1 (dry-run purity).  In each of the three modules, a run in check mode issues no
  create-or-update call and no delete call, whatever the arguments and whatever the
  provider answers.  When the decision step fails, the run fails in the same way; when the
  decision step ends with a decision, the run returns, with the log of the decision step,
  the \<^verbatim>\<open>changed\<close> flag of the decision, \<^verbatim>\<open>check_mode\<close> true and as \<^verbatim>\<open>results\<close> what the
  decision step stored: the diffed dictionary for a resource group and for a network
  interface (the empty dictionary when the resource was not found), and the empty
  dictionary for a virtual machine, whose module stores nothing there before it applies.
  The run outside check mode takes the same decision step, from the same log, and hands
  the same flag and the same results to the apply step; when it returns, it reports the
  \<^verbatim>\<open>changed\<close> flag of the decision.
\<close>

theorem dry_run_purity:
  "(mutations (snd (rg_exec_module_impl renv True ra tr)) = mutations tr \<and>
    (case rg_decide renv ra tr of
       (Inl f, t1) \<Rightarrow> rg_exec_module_impl renv True ra tr = (Inl f, t1)
     | (Inr d, t1) \<Rightarrow>
         rg_exec_module_impl renv True ra tr =
           (Inr \<lparr>changed = rgd_changed d, check_mode = True, results = rgd_results d\<rparr>, t1)) \<and>
    rg_exec_module_impl renv False ra tr =
      (case rg_decide renv ra tr of
         (Inl f, t1) \<Rightarrow> (Inl f, t1)
       | (Inr d, t1) \<Rightarrow>
           rg_apply renv ra d
             \<lparr>changed = rgd_changed d, check_mode = False, results = rgd_results d\<rparr> t1) \<and>
    (\<forall>r tr'. rg_exec_module_impl renv False ra tr = (Inr r, tr') \<longrightarrow>
       (\<exists>d. fst (rg_decide renv ra tr) = Inr d \<and> changed r = rgd_changed d))) \<and>
   (mutations (snd (nic_exec_module_impl nenv True na tr)) = mutations tr \<and>
    (case nic_decide nenv na tr of
       (Inl f, t1) \<Rightarrow> nic_exec_module_impl nenv True na tr = (Inl f, t1)
     | (Inr d, t1) \<Rightarrow>
         nic_exec_module_impl nenv True na tr =
           (Inr \<lparr>changed = nicd_changed d, check_mode = True,
                 results = (case nicd_found d of
                              None \<Rightarrow> EmptyDict
                            | Some (nic, res) \<Rightarrow> Dict res)\<rparr>, t1)) \<and>
    nic_exec_module_impl nenv False na tr =
      (case nic_decide nenv na tr of
         (Inl f, t1) \<Rightarrow> (Inl f, t1)
       | (Inr d, t1) \<Rightarrow>
           nic_apply nenv na d
             \<lparr>changed = nicd_changed d, check_mode = False,
              results = (case nicd_found d of
                           None \<Rightarrow> EmptyDict
                         | Some (nic, res) \<Rightarrow> Dict res)\<rparr> t1) \<and>
    (\<forall>r tr'. nic_exec_module_impl nenv False na tr = (Inr r, tr') \<longrightarrow>
       (\<exists>d. fst (nic_decide nenv na tr) = Inr d \<and> changed r = nicd_changed d))) \<and>
   (mutations (snd (vm_exec_module_impl venv True va tr)) = mutations tr \<and>
    (case vm_decide venv va tr of
       (Inl f, t1) \<Rightarrow> vm_exec_module_impl venv True va tr = (Inl f, t1)
     | (Inr d, t1) \<Rightarrow>
         vm_exec_module_impl venv True va tr =
           (Inr \<lparr>changed = vmd_changed d, check_mode = True, results = EmptyDict,
                 deleted_vhd_uris = None, deleted_network_interfaces = None,
                 deleted_public_ips = None\<rparr>, t1)) \<and>
    vm_exec_module_impl venv False va tr =
      (case vm_decide venv va tr of
         (Inl f, t1) \<Rightarrow> (Inl f, t1)
       | (Inr d, t1) \<Rightarrow>
           vm_apply venv va d
             \<lparr>changed = vmd_changed d, check_mode = False, results = EmptyDict,
              deleted_vhd_uris = None, deleted_network_interfaces = None,
              deleted_public_ips = None\<rparr> t1) \<and>
    (\<forall>r tr'. vm_exec_module_impl venv False va tr = (Inr r, tr') \<longrightarrow>
       (\<exists>d. fst (vm_decide venv va tr) = Inr d \<and> changed r = vmd_changed d)))"
  using rg_check_pure[of renv ra tr] rg_check_run[of renv ra tr] rg_apply_run[of renv ra tr]
    rg_run_changed[of renv ra tr]
    nic_check_pure[of nenv na tr] nic_check_run[of nenv na tr] nic_apply_run[of nenv na tr]
    nic_run_changed[of nenv na tr]
    vm_check_pure[of venv va tr] vm_check_run[of venv va tr] vm_apply_run[of venv va tr]
    vm_run_changed[of venv va tr]
  by blast

lemmas ex_defs = ex_rg_def ex_rg_env_def ex_rg_args_def ex_subnet_def ex_public_ip_def ex_nsg_def
  ex_nic_def ex_id_to_dict_def ex_nic_of_params_def ex_nic_env_def ex_nic_args_def ex_vm_args_def
  ex_vm_env_def ex_vm_def ex_vm_object_def ex_vm_results_def

lemmas rg_defs = rg_exec_module_impl_def rg_decide_def rg_diff_def rg_apply_def rg_apply_present_def
  delete_resource_group_def create_or_update_resource_group_def rg_report_def

lemmas nic_defs = nic_exec_module_impl_def nic_decide_def nic_diff_def nic_apply_def nic_resolve_def
  nic_report_def nicd_results_def nic_to_dict_def get_subnet_def get_public_ip_address_def
  get_security_group_def when_named_def diff_tags_def diff_private_ip_def diff_public_ip_def
  diff_allocation_def nic_create_params_def nic_update_params_def create_or_update_nic_def
  delete_nic_def name_pattern_match_def name_core_def lower_chars_def digit_chars_def

lemmas vm_defs = vm_exec_module_impl_def vm_decide_def vm_resolve_def vm_resolve_started_def
  vm_size_is_valid_def get_network_interface_def get_image_version_def get_storage_account_def
  vm_apply_def vm_report_def delete_vm_def delete_vm_capture_def delete_vm_cascade_def
  capture_vhd_uris_def capture_nic_names_def vm_delete_nic_def delete_pip_def create_vm_def
  vm_resource_def

lemmas truthy_defs = truthy_tags_def truthy_str_def

text \<open>The three examples.  The resource group \<^verbatim>\<open>Testing\<close> with \<^verbatim>\<open>force\<close> set and the
  tags left out, with a provider whose objects cannot be subscripted: the check run
  reports \<^verbatim>\<open>changed\<close> and the dictionary of the group with its tags cleared, after the
  fetch only.  The network interface \<^verbatim>\<open>nic003\<close> with the allocation method \<^verbatim>\<open>Static\<close>
  asked for: the check run reports \<^verbatim>\<open>changed\<close> and the dictionary with the new method.
  The virtual machine that does not exist: the check run reports \<^verbatim>\<open>changed\<close> and the
  empty dictionary.  Outside check mode the three runs return \<^verbatim>\<open>changed\<close> too, after
  mutations.\<close>

theorem dry_run_purity_witness:
  "(rg_exec_module_impl (ex_rg_env\<lparr>rg_item_access := False\<rparr>) True
      (ex_rg_args\<lparr>a_force := True\<rparr>) [] =
      (Inr \<lparr>changed = True, check_mode = True, results = Dict (ex_rg\<lparr>rg_tags := None\<rparr>)\<rparr>,
       [RgGet ''Testing'']) \<and>
    mutations [RgGet ''Testing''] = [] \<and>
    (\<exists>r tr'. rg_exec_module_impl (ex_rg_env\<lparr>rg_item_access := False\<rparr>) False
        (ex_rg_args\<lparr>a_force := True\<rparr>) [] = (Inr r, tr') \<and> changed r \<and> mutations tr' \<noteq> [])) \<and>
   ((\<exists>d tr'. nic_exec_module_impl ex_nic_env True (ex_nic_args\<lparr>n_private_ip_allocation_method := ''Static''\<rparr>) [] =
        (Inr \<lparr>changed = True, check_mode = True, results = Dict d\<rparr>, tr') \<and>
        nd_private_ip_allocation_method d = ''Static'' \<and> mutations tr' = []) \<and>
    (\<exists>r tr'. nic_exec_module_impl ex_nic_env False (ex_nic_args\<lparr>n_private_ip_allocation_method := ''Static''\<rparr>) [] =
        (Inr r, tr') \<and> changed r \<and> mutations tr' \<noteq> [])) \<and>
   ((\<exists>tr'. vm_exec_module_impl ex_vm_env True ex_vm_args [] =
        (Inr \<lparr>changed = True, check_mode = True, results = EmptyDict, deleted_vhd_uris = None,
              deleted_network_interfaces = None, deleted_public_ips = None\<rparr>, tr') \<and>
        mutations tr' = []) \<and>
    (\<exists>r tr'. vm_exec_module_impl ex_vm_env False ex_vm_args [] = (Inr r, tr') \<and>
        changed r \<and> mutations tr' \<noteq> []))"
proof -
  let ?renv = "ex_rg_env\<lparr>rg_item_access := False\<rparr>"
  let ?ra = "ex_rg_args\<lparr>a_force := True\<rparr>"
  let ?na = "ex_nic_args\<lparr>n_private_ip_allocation_method := ''Static''\<rparr>"
  note t = dry_run_purity[of ?renv ?ra "[]" ex_nic_env ?na ex_vm_env ex_vm_args]
  note rg_t = t[THEN conjunct1]
  note nic_t = t[THEN conjunct2, THEN conjunct1]
  note vm_t = t[THEN conjunct2, THEN conjunct2]
  have none: "mutations [] = []"
    by (simp add: mutations_def)
  have rg_dec: "rg_decide ?renv ?ra [] =
      (Inr \<lparr>rgd_changed = True, rgd_results = Dict (ex_rg\<lparr>rg_tags := None\<rparr>),
            rgd_rg = Some ex_rg\<rparr>, [RgGet ''Testing''])"
    by (simp add: rg_decide_def rg_diff_def ex_defs prog_defs Let_def)
  from rg_t[THEN conjunct2, THEN conjunct1] rg_dec
  have rg_check: "rg_exec_module_impl ?renv True ?ra [] =
      (Inr \<lparr>changed = True, check_mode = True, results = Dict (ex_rg\<lparr>rg_tags := None\<rparr>)\<rparr>,
       [RgGet ''Testing''])"
    by simp
  from rg_t[THEN conjunct1] rg_check none have rg_pure: "mutations [RgGet ''Testing''] = []"
    by simp
  obtain r1 t1 where rg_run: "rg_exec_module_impl ?renv False ?ra [] = (Inr r1, t1)"
    and rg_mut: "mutations t1 \<noteq> []"
    by (simp add: rg_defs ex_defs prog_defs truthy_defs Let_def mutations_def)
  from rg_t[THEN conjunct2, THEN conjunct2, THEN conjunct2] rg_run
  have "\<exists>d. fst (rg_decide ?renv ?ra []) = Inr d \<and> changed r1 = rgd_changed d"
    by blast
  with rg_dec have "changed r1" by simp
  with rg_run rg_mut have rg_apply: "\<exists>r tr'. rg_exec_module_impl ?renv False ?ra [] = (Inr r, tr') \<and>
      changed r \<and> mutations tr' \<noteq> []"
    by blast
  obtain nd nt where nic_dec: "nic_decide ex_nic_env ?na [] = (Inr nd, nt)"
    and nd: "nicd_changed nd"
      "\<exists>nic d. nicd_found nd = Some (nic, d) \<and> nd_private_ip_allocation_method d = ''Static''"
    by (simp add: nic_defs ex_defs prog_defs truthy_defs Let_def)
  from nd obtain nic d where found: "nicd_found nd = Some (nic, d)"
    and tags: "nd_private_ip_allocation_method d = ''Static''"
    by blast
  from nic_t[THEN conjunct2, THEN conjunct1] nic_dec found nd(1)
  have nic_check: "nic_exec_module_impl ex_nic_env True ?na [] =
      (Inr \<lparr>changed = True, check_mode = True, results = Dict d\<rparr>, nt)"
    by simp
  from nic_t[THEN conjunct1] nic_check none have nic_pure: "mutations nt = []"
    by simp
  obtain r2 t2 where nic_run: "nic_exec_module_impl ex_nic_env False ?na [] = (Inr r2, t2)"
    and nic_mut: "mutations t2 \<noteq> []"
    by (simp add: nic_defs ex_defs prog_defs truthy_defs Let_def mutations_def)
  from nic_t[THEN conjunct2, THEN conjunct2, THEN conjunct2] nic_run
  have "\<exists>d. fst (nic_decide ex_nic_env ?na []) = Inr d \<and> changed r2 = nicd_changed d"
    by blast
  with nic_dec nd(1) have "changed r2" by simp
  with nic_run nic_mut have nic_apply: "\<exists>r tr'. nic_exec_module_impl ex_nic_env False ?na [] = (Inr r, tr') \<and>
      changed r \<and> mutations tr' \<noteq> []"
    by blast
  obtain vd vt where vm_dec: "vm_decide ex_vm_env ex_vm_args [] = (Inr vd, vt)"
    and vd: "vmd_changed vd"
    by (simp add: vm_defs ex_defs prog_defs truthy_defs Let_def)
  from vm_t[THEN conjunct2, THEN conjunct1] vm_dec vd
  have vm_check: "vm_exec_module_impl ex_vm_env True ex_vm_args [] =
        (Inr \<lparr>changed = True, check_mode = True, results = EmptyDict, deleted_vhd_uris = None,
              deleted_network_interfaces = None, deleted_public_ips = None\<rparr>, vt)"
    by simp
  from vm_t[THEN conjunct1] vm_check none have vm_pure: "mutations vt = []"
    by simp
  obtain r3 t3 where vm_run: "vm_exec_module_impl ex_vm_env False ex_vm_args [] = (Inr r3, t3)"
    and vm_mut: "mutations t3 \<noteq> []"
    by (simp add: vm_defs ex_defs prog_defs truthy_defs Let_def mutations_def)
  from vm_t[THEN conjunct2, THEN conjunct2, THEN conjunct2] vm_run
  have "\<exists>d. fst (vm_decide ex_vm_env ex_vm_args []) = Inr d \<and> changed r3 = vmd_changed d"
    by blast
  with vm_dec vd have "changed r3" by simp
  with vm_run vm_mut have vm_apply: "\<exists>r tr'. vm_exec_module_impl ex_vm_env False ex_vm_args [] = (Inr r, tr') \<and>
      changed r \<and> mutations tr' \<noteq> []"
    by blast
  have rg_all: "rg_exec_module_impl ?renv True ?ra [] =
      (Inr \<lparr>changed = True, check_mode = True, results = Dict (ex_rg\<lparr>rg_tags := None\<rparr>)\<rparr>,
       [RgGet ''Testing'']) \<and>
    mutations [RgGet ''Testing''] = [] \<and>
    (\<exists>r tr'. rg_exec_module_impl ?renv False ?ra [] = (Inr r, tr') \<and> changed r \<and>
       mutations tr' \<noteq> [])"
    using rg_check rg_pure rg_apply by (intro conjI)
  have nic_all: "(\<exists>d tr'. nic_exec_module_impl ex_nic_env True ?na [] =
        (Inr \<lparr>changed = True, check_mode = True, results = Dict d\<rparr>, tr') \<and>
        nd_private_ip_allocation_method d = ''Static'' \<and> mutations tr' = []) \<and>
    (\<exists>r tr'. nic_exec_module_impl ex_nic_env False ?na [] = (Inr r, tr') \<and> changed r \<and>
       mutations tr' \<noteq> [])"
    using nic_check tags nic_pure nic_apply by blast
  have vm_all: "(\<exists>tr'. vm_exec_module_impl ex_vm_env True ex_vm_args [] =
        (Inr \<lparr>changed = True, check_mode = True, results = EmptyDict, deleted_vhd_uris = None,
              deleted_network_interfaces = None, deleted_public_ips = None\<rparr>, tr') \<and>
        mutations tr' = []) \<and>
    (\<exists>r tr'. vm_exec_module_impl ex_vm_env False ex_vm_args [] = (Inr r, tr') \<and>
        changed r \<and> mutations tr' \<noteq> [])"
    using vm_check vm_pure vm_apply by blast
  show ?thesis
    by (rule conjI[OF rg_all conjI[OF nic_all vm_all]])
qed

subsection \<open>The location of a resource group\<close>

text \<open>
  Claim C6 (immutable resource-group location).  When the resource group exists with
  location \<open>L\<close> and the module is run with \<^verbatim>\<open>state=present\<close> and a desired location other
  than \<open>L\<close>, the run ends in a fatal failure right after the fetch: the only call it makes
  is the fetch, so no create, update or delete call is issued.  When
  \<^verbatim>\<open>check_provisioning_state\<close> lets the resource group pass, the failure is the one of
  line 199 (``already exists in location ... and cannot be moved'').
\<close>

theorem rg_location_immutable:
  assumes "resource_groups_get env tr (a_name a) = Inr rg"
      and "a_state a = Present"
      and "a_location a \<noteq> Some (rg_location rg)"
  shows "\<exists>m. rg_exec_module_impl env cm a tr = (Inl (Fail m), tr @ [RgGet (a_name a)])
             \<and> (rg_provisioning_ok env rg \<longrightarrow> m = RgCannotBeMoved (a_name a) (a_location a))
             \<and> mutations (tr @ [RgGet (a_name a)]) = mutations tr"
  using assms
  by (auto simp add: rg_exec_module_impl_def rg_decide_def rg_diff_def prog_defs Let_def
      mutations_def)

text \<open>The scenario of the spec: \<^verbatim>\<open>Testing\<close> exists in \<^verbatim>\<open>eastus2\<close>, the desired location is
  \<^verbatim>\<open>westus\<close>.\<close>

theorem rg_location_immutable_witness:
  "resource_groups_get ex_rg_env [] (a_name (ex_rg_args\<lparr>a_location := Some ''westus''\<rparr>)) = Inr ex_rg \<and>
   a_location (ex_rg_args\<lparr>a_location := Some ''westus''\<rparr>) \<noteq> Some (rg_location ex_rg) \<and>
   rg_exec_module_impl ex_rg_env False (ex_rg_args\<lparr>a_location := Some ''westus''\<rparr>) [] =
     (Inl (Fail (RgCannotBeMoved ''Testing'' (Some ''westus''))), [RgGet ''Testing''])"
  using rg_location_immutable[of ex_rg_env "[]" "ex_rg_args\<lparr>a_location := Some ''westus''\<rparr>"
      ex_rg False]
  by (simp add: ex_defs)

text \<open>
  Claim C10 (location omitted).  When the resource group exists and the module is run with
  \<^verbatim>\<open>state=present\<close> and no location (\<^verbatim>\<open>None\<close>), the run always ends in a fatal failure
  right after the fetch, with the failure of line 199 when the provisioning state passes;
  and whenever a run with \<^verbatim>\<open>state=present\<close> on an existing resource group returns, the
  location argument is the location of the resource group: an update of the tags only has
  to state the current location again.
\<close>

theorem rg_location_omitted:
  assumes "resource_groups_get env tr (a_name a) = Inr rg"
      and "a_state a = Present"
  shows "(a_location a = None \<longrightarrow>
            (\<exists>m. rg_exec_module_impl env cm a tr = (Inl (Fail m), tr @ [RgGet (a_name a)]) \<and>
                 (rg_provisioning_ok env rg \<longrightarrow> m = RgCannotBeMoved (a_name a) None)))
       \<and> (\<forall>r tr'. rg_exec_module_impl env cm a tr = (Inr r, tr') \<longrightarrow>
            a_location a = Some (rg_location rg))"
  using assms
  by (auto simp add: rg_exec_module_impl_def rg_decide_def rg_diff_def prog_defs Let_def
      split: if_splits)

text \<open>An update of the tags of \<^verbatim>\<open>Testing\<close>: without the location it fails, with the
  location \<^verbatim>\<open>eastus2\<close> it returns.\<close>

theorem rg_location_omitted_witness:
  "rg_exec_module_impl ex_rg_env False (ex_rg_args\<lparr>a_location := None, a_tags := Some [''b'' \<mapsto> ''2'']\<rparr>) [] =
     (Inl (Fail (RgCannotBeMoved ''Testing'' None)), [RgGet ''Testing'']) \<and>
   (\<exists>r tr'. rg_exec_module_impl ex_rg_env False (ex_rg_args\<lparr>a_tags := Some [''b'' \<mapsto> ''2'']\<rparr>) [] = (Inr r, tr') \<and>
      a_location ex_rg_args = Some (rg_location ex_rg))"
proof -
  have found: "resource_groups_get ex_rg_env [] ''Testing'' = Inr ex_rg"
    by (simp add: ex_defs)
  have 1: "rg_exec_module_impl ex_rg_env False
       (ex_rg_args\<lparr>a_location := None, a_tags := Some [''b'' \<mapsto> ''2'']\<rparr>) [] =
     (Inl (Fail (RgCannotBeMoved ''Testing'' None)), [RgGet ''Testing''])"
    using rg_location_omitted[of ex_rg_env "[]"
        "ex_rg_args\<lparr>a_location := None, a_tags := Some [''b'' \<mapsto> ''2'']\<rparr>" ex_rg False] found
    by (simp add: ex_defs)
  have 2: "\<exists>r tr'. rg_exec_module_impl ex_rg_env False
       (ex_rg_args\<lparr>a_tags := Some [''b'' \<mapsto> ''2'']\<rparr>) [] = (Inr r, tr')"
    by (simp add: rg_defs ex_defs prog_defs truthy_defs Let_def)
  have 3: "a_location ex_rg_args = Some (rg_location ex_rg)"
    by (simp add: ex_defs)
  from 1 2 3 show ?thesis by blast
qed

subsection \<open>A virtual machine that exists\<close>

lemma vm_decide_found:
  assumes found: "\<forall>h. \<exists>vm. virtual_machines_get env h (v_resource_group a) (v_name a) = Inr vm"
      and run: "vm_decide env a tr = (Inr d, tr1)"
  shows "vmd_vm d \<noteq> None \<and>
         vmd_changed d = (v_state a = Started \<and> v_force a \<or> v_state a = Absent)"
proof -
  from run obtain rs t0 r where
    r: "r = virtual_machines_get env t0 (v_resource_group a) (v_name a)"
    and rest: "(case r of
             Inl e \<Rightarrow>
               if e = CloudError
               then ret \<lparr>vmd_changed = (v_state a = Started), vmd_vm = None,
                         vmd_resolved = rs\<rparr>
               else raise e
           | Inr vm \<Rightarrow>
               if \<not> vm_provisioning_ok env vm then fail (ProvisioningStateError (vm_name vm))
               else if v_state a = Started \<and> v_force a then
                 ret \<lparr>vmd_changed = True, vmd_vm = Some vm, vmd_resolved = rs\<rparr>
               else if v_state a = Started then
                 ret \<lparr>vmd_changed = False, vmd_vm = Some vm, vmd_resolved = rs\<rparr>
               else if v_state a = Stopped then
                 ret \<lparr>vmd_changed = False, vmd_vm = Some vm, vmd_resolved = rs\<rparr>
               else if v_state a = Absent then
                 ret \<lparr>vmd_changed = True, vmd_vm = Some vm, vmd_resolved = rs\<rparr>
               else ret \<lparr>vmd_changed = False, vmd_vm = Some vm, vmd_resolved = rs\<rparr>)
            (t0 @ [VmGet (v_resource_group a) (v_name a)]) = (Inr d, tr1)"
    by (auto simp: vm_decide_def bnd_Inr_iff invoke_def)
  from found r obtain vm where "r = Inr vm" by metis
  with rest show ?thesis
    by (auto simp: ret_def fail_def split: if_splits)
qed

text \<open>
  Claim C8 (no comparison for an existing virtual machine).  When the virtual machine exists
  (the provider answers every fetch of it with a machine), \<^verbatim>\<open>state=started\<close> and
  \<^verbatim>\<open>force=false\<close>, a run issues no provider mutation, and if it returns, \<^verbatim>\<open>changed\<close> is
  false and \<^verbatim>\<open>results\<close> is the empty dictionary, whatever the size, image, tags and
  network interfaces of the arguments and of the machine are.
\<close>

theorem vm_existing_never_compared:
  assumes found: "\<forall>h. \<exists>vm. virtual_machines_get env h (v_resource_group a) (v_name a) = Inr vm"
      and started: "v_state a = Started"
      and noforce: "\<not> v_force a"
  shows "mutations (snd (vm_exec_module_impl env cm a tr)) = mutations tr \<and>
         (\<forall>r tr'. vm_exec_module_impl env cm a tr = (Inr r, tr') \<longrightarrow>
            \<not> changed r \<and> results r = EmptyDict)"
proof -
  have pure: "mutations (snd (vm_decide env a tr)) = mutations tr"
    using reads_only_vm_decide[of env a] by (simp add: reads_only_def)
  show ?thesis
  proof (cases "vm_decide env a tr")
    case (Pair x tr1)
    show ?thesis
    proof (cases x)
      case (Inl f)
      with Pair pure show ?thesis
        by (simp add: vm_exec_module_impl_def bnd_def)
    next
      case (Inr d)
      with Pair have run: "vm_decide env a tr = (Inr d, tr1)" by simp
      from vm_decide_found[OF found run] started noforce have "\<not> vmd_changed d" by simp
      with run pure show ?thesis
        by (simp add: vm_exec_module_impl_def bnd_def vm_apply_def ret_def vm_report_def)
    qed
  qed
qed

text \<open>The machine has the size \<^verbatim>\<open>Standard_D1\<close> and no tags; the run asks for
  \<^verbatim>\<open>Standard_A9\<close> and a tag.\<close>

theorem vm_existing_never_compared_witness:
  "(\<forall>h. \<exists>vm. virtual_machines_get (ex_vm_env\<lparr>virtual_machines_get := (\<lambda>tr g nm. Inr ex_vm)\<rparr>) h
       ''Testing'' ''testvm002'' = Inr vm) \<and>
   vm_vm_size ex_vm \<noteq> ''Standard_A9'' \<and> vm_tags ex_vm \<noteq> Some [''env'' \<mapsto> ''prod''] \<and>
   (\<exists>r tr'. vm_exec_module_impl (ex_vm_env\<lparr>virtual_machines_get := (\<lambda>tr g nm. Inr ex_vm)\<rparr>) False
       (ex_vm_args\<lparr>v_vm_size := ''Standard_A9'', v_tags := Some [''env'' \<mapsto> ''prod'']\<rparr>) [] = (Inr r, tr') \<and>
      \<not> changed r \<and> results r = EmptyDict \<and> mutations tr' = [])"
proof -
  let ?env = "ex_vm_env\<lparr>virtual_machines_get := (\<lambda>tr g nm. Inr ex_vm)\<rparr>"
  let ?a = "ex_vm_args\<lparr>v_vm_size := ''Standard_A9'', v_tags := Some [''env'' \<mapsto> ''prod'']\<rparr>"
  have found: "\<forall>h. \<exists>vm. virtual_machines_get ?env h (v_resource_group ?a) (v_name ?a) = Inr vm"
    by (simp add: ex_defs)
  have st: "v_state ?a = Started" "\<not> v_force ?a"
    by (simp_all add: ex_defs)
  have run: "\<exists>r tr'. vm_exec_module_impl ?env False ?a [] = (Inr r, tr')"
    by (simp add: vm_defs ex_defs prog_defs truthy_defs Let_def)
  have diff: "vm_vm_size ex_vm \<noteq> ''Standard_A9''" "vm_tags ex_vm \<noteq> Some [''env'' \<mapsto> ''prod'']"
    by (simp_all add: ex_defs)
  have none: "mutations [] = []" by (simp add: mutations_def)
  from vm_existing_never_compared[OF found st, of False "[]"] run none
  have "\<exists>r tr'. vm_exec_module_impl ?env False ?a [] = (Inr r, tr') \<and>
      \<not> changed r \<and> results r = EmptyDict \<and> mutations tr' = []"
    by (metis snd_conv)
  with found diff show ?thesis by (simp add: ex_defs)
qed

subsection \<open>The log of \<^verbatim>\<open>delete_vm\<close>\<close>

text \<open>Each loop of \<^verbatim>\<open>delete_vm\<close> makes one call for each name, in the order of the list,
  and stops at the first name whose step fails.\<close>

lemma bnd_cases:
  assumes "bnd m k tr = (r, tr')"
  obtains (failed) f where "m tr = (Inl f, tr')" and "r = Inl f"
        | (went_on) x t1 where "m tr = (Inr x, t1)" and "k x t1 = (r, tr')"
  using assms by (auto simp: bnd_def split: prod.splits sum.splits)

lemma get_network_interface_log:
  "get_network_interface env a nm tr = (r, tr') \<Longrightarrow> tr' = tr @ [NicGet (v_resource_group a) nm]"
  by (auto simp: get_network_interface_def prog_defs split: sum.splits)



lemma capture_public_ips_log:
  "capture_public_ips env a nms tr = (r, tr') \<Longrightarrow>
   \<exists>k\<le>length nms. tr' = tr @ map (NicGet (v_resource_group a)) (take k nms) \<and>
                   (\<forall>x. r = Inr x \<longrightarrow> k = length nms)"
proof (induction nms arbitrary: tr r tr')
  case Nil
  then show ?case by (simp add: ret_def)
next
  case (Cons nm nms)
  let ?step = "tr @ [NicGet (v_resource_group a) nm]"
  from Cons.prems have run: "bnd (get_network_interface env a nm)
       (\<lambda>nic. case names_from_ids (vm_azure_id_to_dict env) ''publicIPAddresses''
                     (List.map_filter ipc_public_ip_address (ni_ip_configurations nic)) of
          Inl e \<Rightarrow> raise e
        | Inr pips \<Rightarrow> bnd (capture_public_ips env a nms) (\<lambda>more. ret (pips @ more))) tr = (r, tr')"
    by simp
  from run show ?case
  proof (cases rule: bnd_cases)
    case (failed f)
    from get_network_interface_log[OF failed(1)] failed(2)
    have "tr' = tr @ map (NicGet (v_resource_group a)) (take 1 (nm # nms))" and "\<forall>x. r \<noteq> Inr x"
      by simp_all
    then show ?thesis by (intro exI[of _ 1]) simp
  next
    case (went_on nic t1)
    from get_network_interface_log[OF went_on(1)] have t1: "t1 = ?step" .
    show ?thesis
    proof (cases "names_from_ids (vm_azure_id_to_dict env) ''publicIPAddresses''
                     (List.map_filter ipc_public_ip_address (ni_ip_configurations nic))")
      case (Inl e)
      with went_on(2) t1
      have "tr' = tr @ map (NicGet (v_resource_group a)) (take 1 (nm # nms))" and "\<forall>x. r \<noteq> Inr x"
        by (auto simp: raise_def)
      then show ?thesis by (intro exI[of _ 1]) simp
    next
      case (Inr pips)
      with went_on(2) t1
      have "bnd (capture_public_ips env a nms) (\<lambda>more. ret (pips @ more)) ?step = (r, tr')"
        by simp
      then obtain r1 where inner: "capture_public_ips env a nms ?step = (r1, tr')"
        and iff: "(\<exists>x. r = Inr x) \<longleftrightarrow> (\<exists>y. r1 = Inr y)"
        by (cases rule: bnd_cases) (auto simp: ret_def)
      from Cons.IH[OF inner] obtain k where k: "k \<le> length nms"
        "tr' = ?step @ map (NicGet (v_resource_group a)) (take k nms)"
        "\<forall>x. r1 = Inr x \<longrightarrow> k = length nms"
        by blast
      with iff show ?thesis by (intro exI[of _ "Suc k"]) auto
    qed
  qed
qed





lemma delete_vm_capture_log:
  assumes run: "delete_vm_capture env a res tr = (r, tr')"
  defines "g \<equiv> v_resource_group a"
  shows "\<exists>nms. tr' = tr @ map (NicGet g) nms \<and>
           (\<forall>cap res'. r = Inr (cap, res') \<longrightarrow>
              nms = (if v_delete_network_interfaces a \<and> v_delete_public_ips a
                     then cap_nic_names cap else []) \<and>
              (v_delete_network_interfaces a \<longrightarrow>
                 deleted_network_interfaces res' = Some (cap_nic_names cap)) \<and>
              (v_delete_network_interfaces a \<and> v_delete_public_ips a \<longrightarrow>
                 deleted_public_ips res' = Some (cap_pip_names cap)) \<and>
              (\<not> v_delete_network_interfaces a \<longrightarrow> cap_nic_names cap = [] \<and> cap_pip_names cap = []) \<and>
              (\<not> v_delete_public_ips a \<longrightarrow> cap_pip_names cap = []))"
proof -
  from run show ?thesis
    unfolding delete_vm_capture_def
  proof (cases rule: bnd_cases)
    case (failed f)
    then have "tr' = tr"
      by (auto simp: capture_vhd_uris_def prog_defs split: if_splits option.splits sum.splits)
    with failed(2) show ?thesis by (intro exI[of _ "[]"]) simp
  next
    case (went_on x t1)
    obtain uris res1 where x: "x = (uris, res1)" by (cases x)
    from went_on(1) have t1: "t1 = tr"
      by (auto simp: capture_vhd_uris_def prog_defs split: if_splits option.splits sum.splits)
    from went_on(1) x have res1: "deleted_network_interfaces res1 = deleted_network_interfaces res"
      "deleted_public_ips res1 = deleted_public_ips res"
      by (auto simp: capture_vhd_uris_def prog_defs split: if_splits option.splits sum.splits)
    show ?thesis
    proof (cases "v_delete_network_interfaces a")
      case False
      with went_on(2) x t1 show ?thesis
        by (intro exI[of _ "[]"]) (auto simp: ret_def)
    next
      case dn: True
      with went_on(2) x t1 have "bnd (capture_nic_names env)
              (\<lambda>nic_names.
                 let res2 = res1\<lparr>deleted_network_interfaces := Some nic_names\<rparr>
                 in if v_delete_public_ips a then
                      bnd (capture_public_ips env a nic_names)
                        (\<lambda>pip_names.
                           ret (\<lparr>cap_vhd_uris = uris, cap_nic_names = nic_names,
                                 cap_pip_names = pip_names\<rparr>,
                                res2\<lparr>deleted_public_ips := Some pip_names\<rparr>))
                    else ret (\<lparr>cap_vhd_uris = uris, cap_nic_names = nic_names,
                               cap_pip_names = []\<rparr>, res2)) tr = (r, tr')"
        by simp
      then show ?thesis
      proof (cases rule: bnd_cases)
        case (failed f)
        then have "tr' = tr"
          by (auto simp: capture_nic_names_def prog_defs split: option.splits sum.splits)
        with failed(2) show ?thesis by (intro exI[of _ "[]"]) simp
      next
        case names: (went_on nic_names t2)
        from names(1) have t2: "t2 = tr"
          by (auto simp: capture_nic_names_def prog_defs split: option.splits sum.splits)
        show ?thesis
        proof (cases "v_delete_public_ips a")
          case False
          with names(2) t2 dn show ?thesis
            by (intro exI[of _ "[]"]) (auto simp: ret_def Let_def)
        next
          case dp: True
          with names(2) t2 have "bnd (capture_public_ips env a nic_names)
                        (\<lambda>pip_names.
                           ret (\<lparr>cap_vhd_uris = uris, cap_nic_names = nic_names,
                                 cap_pip_names = pip_names\<rparr>,
                                res1\<lparr>deleted_network_interfaces := Some nic_names,
                                     deleted_public_ips := Some pip_names\<rparr>)) tr = (r, tr')"
            by (simp add: Let_def)
          then show ?thesis
          proof (cases rule: bnd_cases)
            case (failed f)
            from capture_public_ips_log[OF failed(1)] failed(2) show ?thesis
              by (auto simp: g_def)
          next
            case pips: (went_on pip_names t3)
            from capture_public_ips_log[OF pips(1)]
            have "t3 = tr @ map (NicGet g) nic_names" by (auto simp: g_def)
            with pips(2) dn dp show ?thesis
              by (intro exI[of _ nic_names]) (auto simp: ret_def)
          qed
        qed
      qed
    qed
  qed
qed


subsection \<open>The name \<^verbatim>\<open>vm\<close> in \<^verbatim>\<open>delete_vm\<close>\<close>

text \<open>What \<^verbatim>\<open>delete_vm\<close> does when the name \<^verbatim>\<open>vm\<close> is not bound: with one of the two flags
  that read it, \<^verbatim>\<open>NameError\<close> before any call; with neither, the deletion of the virtual
  machine and nothing else.  A run with \<^verbatim>\<open>state: started\<close> and \<^verbatim>\<open>force\<close> whose decision
  step does not fail always decides to change, and so always gets there (lines 267--270).\<close>

lemma delete_vm_unbound_raises:
  assumes "global_vm env = None"
      and "v_delete_network_interfaces a \<or> v_delete_virtual_storage a"
  shows "delete_vm env a res tr = (Inl (Raise NameError), tr)"
  using assms
  by (auto simp: delete_vm_def delete_vm_capture_def capture_vhd_uris_def capture_nic_names_def
      prog_defs)


lemma vm_decide_forced:
  assumes "v_state a = Started" and "v_force a"
      and run: "vm_decide env a tr = (Inr d, t1)"
  shows "vmd_changed d"
proof -
  from run obtain rs t0 where
    rest: "(case virtual_machines_get env t0 (v_resource_group a) (v_name a) of
             Inl e \<Rightarrow>
               if e = CloudError
               then ret \<lparr>vmd_changed = (v_state a = Started), vmd_vm = None,
                         vmd_resolved = rs\<rparr>
               else raise e
           | Inr vm \<Rightarrow>
               if \<not> vm_provisioning_ok env vm then fail (ProvisioningStateError (vm_name vm))
               else if v_state a = Started \<and> v_force a then
                 ret \<lparr>vmd_changed = True, vmd_vm = Some vm, vmd_resolved = rs\<rparr>
               else if v_state a = Started then
                 ret \<lparr>vmd_changed = False, vmd_vm = Some vm, vmd_resolved = rs\<rparr>
               else if v_state a = Stopped then
                 ret \<lparr>vmd_changed = False, vmd_vm = Some vm, vmd_resolved = rs\<rparr>
               else if v_state a = Absent then
                 ret \<lparr>vmd_changed = True, vmd_vm = Some vm, vmd_resolved = rs\<rparr>
               else ret \<lparr>vmd_changed = False, vmd_vm = Some vm, vmd_resolved = rs\<rparr>)
            (t0 @ [VmGet (v_resource_group a) (v_name a)]) = (Inr d, t1)"
    by (auto simp: vm_decide_def bnd_Inr_iff invoke_def)
  with assms(1,2) show ?thesis
    by (auto simp: ret_def fail_def raise_def split: sum.splits if_splits)
qed

lemma vm_apply_forced_unbound:
  assumes "global_vm env = None" and "v_delete_network_interfaces a"
      and "v_state a = Started" and "v_force a" and "vmd_changed d"
  shows "vm_apply env a d res t1 = (Inl (Raise NameError), t1)"
  using assms delete_vm_unbound_raises[of env a res t1]
  by (simp add: vm_apply_def bnd_def)

text \<open>
  Claim C5 (cascade ordering).  \<^verbatim>\<open>delete_vm\<close> is written to store the names of the network
  interfaces and of their public IP addresses, then to delete the virtual machine, then
  the dependent resources.  But the stored names are read from \<^verbatim>\<open>vm\<close> (line 373), which is
  neither a parameter nor a local of \<^verbatim>\<open>delete_vm\<close> nor a name of the module.  With the name
  not bound and \<^verbatim>\<open>delete_network_interfaces\<close> set, \<^verbatim>\<open>delete_vm\<close> ends with \<^verbatim>\<open>NameError\<close>
  and adds no call to the log: no name is stored, and neither the virtual machine nor a
  dependent resource is deleted.  So the only run that reaches \<^verbatim>\<open>delete_vm\<close>, that of
  \<^verbatim>\<open>state: started\<close> with \<^verbatim>\<open>force\<close> outside check mode, never returns with that flag
  set, and issues no mutation at all.
\<close>

theorem cascade_capture_raises:
  assumes unbound: "global_vm env = None"
      and dn: "v_delete_network_interfaces a"
  shows "delete_vm env a res tr = (Inl (Raise NameError), tr) \<and>
         (v_state a = Started \<and> v_force a \<longrightarrow>
            (\<forall>r tr'. vm_exec_module_impl env False a tr = (r, tr') \<longrightarrow>
               (\<exists>f. r = Inl f) \<and> mutations tr' = mutations tr))"
proof -
  have raises: "delete_vm env a res tr = (Inl (Raise NameError), tr)"
    using delete_vm_unbound_raises[of env a res tr] assms by simp
  have "(\<exists>f. r = Inl f) \<and> mutations tr' = mutations tr"
    if st: "v_state a = Started" "v_force a"
      and run: "vm_exec_module_impl env False a tr = (r, tr')" for r tr'
  proof -
    have pure: "mutations (snd (vm_decide env a tr)) = mutations tr"
      using reads_only_vm_decide[of env a] by (simp add: reads_only_def)
    show ?thesis
    proof (cases "vm_decide env a tr")
      case (Pair x t1)
      show ?thesis
      proof (cases x)
        case (Inl f)
        with Pair run pure show ?thesis
          by (auto simp: vm_exec_module_impl_def bnd_def)
      next
        case (Inr d)
        with Pair have dec: "vm_decide env a tr = (Inr d, t1)" by simp
        from vm_decide_forced[OF st dec] have ch: "vmd_changed d" .
        from dec run vm_apply_forced_unbound[OF unbound dn st ch, of "vm_report False d" t1]
        have "r = Inl (Raise NameError)" and "tr' = t1"
          by (simp_all add: vm_exec_module_impl_def bnd_def)
        with pure dec show ?thesis by simp
      qed
    qed
  qed
  with raises show ?thesis by blast
qed

text \<open>The machine \<^verbatim>\<open>testvm002\<close> exists and is to be created again with its network
  interfaces and public IP addresses deleted: the run ends with \<^verbatim>\<open>NameError\<close> after the
  reads of the decision step.\<close>

theorem cascade_capture_raises_witness:
  "global_vm ex_vm_env = None \<and>
   delete_vm ex_vm_env
     (ex_vm_args\<lparr>v_force := True, v_delete_network_interfaces := True, v_delete_public_ips := True\<rparr>)
     ex_vm_results [] = (Inl (Raise NameError), []) \<and>
   vm_exec_module_impl (ex_vm_env\<lparr>virtual_machines_get := (\<lambda>tr g nm. Inr ex_vm)\<rparr>) False
     (ex_vm_args\<lparr>v_force := True, v_delete_network_interfaces := True, v_delete_public_ips := True\<rparr>)
     [] =
     (Inl (Raise NameError),
      [GetResourceGroup ''Testing'', VmSizesList (Some ''eastus2''), NicGet ''Testing'' ''nic003'',
       VmImagesList (Some ''eastus2'') (Some ''OpenLogic'') (Some ''CentOS'') (Some ''7.1''),
       StorageAccountGet ''Testing'' (Some ''testaccount001''), VmGet ''Testing'' ''testvm002''])"
proof -
  let ?a = "ex_vm_args\<lparr>v_force := True, v_delete_network_interfaces := True,
                        v_delete_public_ips := True\<rparr>"
  have unbound: "global_vm ex_vm_env = None"
    by (simp add: ex_defs)
  have flag: "v_delete_network_interfaces ?a"
    by simp
  from cascade_capture_raises[OF unbound flag, of ex_vm_results "[]"]
  have 1: "delete_vm ex_vm_env ?a ex_vm_results [] = (Inl (Raise NameError), [])"
    by blast
  have 2: "vm_exec_module_impl (ex_vm_env\<lparr>virtual_machines_get := (\<lambda>tr g nm. Inr ex_vm)\<rparr>) False ?a [] =
     (Inl (Raise NameError),
      [GetResourceGroup ''Testing'', VmSizesList (Some ''eastus2''), NicGet ''Testing'' ''nic003'',
       VmImagesList (Some ''eastus2'') (Some ''OpenLogic'') (Some ''CentOS'') (Some ''7.1''),
       StorageAccountGet ''Testing'' (Some ''testaccount001''), VmGet ''Testing'' ''testvm002''])"
    by (simp add: vm_defs ex_defs prog_defs truthy_defs Let_def)
  from unbound 1 2 show ?thesis by blast
qed

subsection \<open>The disk blobs\<close>

lemma capture_unbound:
  assumes "v_delete_virtual_storage a" and "global_vm env = None"
  shows "delete_vm_capture env a res tr = (Inl (Raise NameError), tr)"
  using assms by (simp add: delete_vm_capture_def capture_vhd_uris_def prog_defs)

lemma cascade_with_storage:
  assumes "v_delete_virtual_storage a"
  shows "delete_vm_cascade env a cap tr =
     ((case virtual_machines_delete env tr (v_resource_group a) (v_name a) of
         Inl e \<Rightarrow> Inl (Fail (VmErrorDeletingVm (v_name a) e))
       | Inr _ \<Rightarrow> Inl (Raise TypeError)),
      tr @ [VmDelete (v_resource_group a) (v_name a)])"
  using assms by (simp add: delete_vm_cascade_def prog_defs split: sum.splits)

text \<open>
  Claim C9 (the disk cleanup never completes).  With \<^verbatim>\<open>delete_virtual_storage\<close> set,
  \<^verbatim>\<open>delete_vm\<close> never returns, and its calls are fetches of network interfaces and the
  deletion of the virtual machine only: no blob (and no other dependent resource) is
  deleted.  When the name \<^verbatim>\<open>vm\<close> is not bound, the run ends with \<^verbatim>\<open>NameError\<close> before
  any call (line 364).  When the run gets as far as deleting the virtual machine, that is
  its last call: if the deletion is refused the run fails, and if it is accepted the run
  ends with \<^verbatim>\<open>TypeError\<close>, because line 398 calls the Boolean attribute that hides the
  method \<^verbatim>\<open>delete_virtual_storage\<close>.
\<close>

theorem disk_cleanup_never_completes:
  assumes dvs: "v_delete_virtual_storage a"
  shows "\<exists>f cs. delete_vm env a res tr = (Inl f, tr @ cs) \<and>
           list_all (\<lambda>c. cascade_phase c \<le> 1) cs \<and>
           (global_vm env = None \<longrightarrow> f = Raise NameError \<and> cs = []) \<and>
           (VmDelete (v_resource_group a) (v_name a) \<in> set cs \<longrightarrow>
              last cs = VmDelete (v_resource_group a) (v_name a) \<and>
              (case virtual_machines_delete env (tr @ butlast cs) (v_resource_group a) (v_name a) of
                 Inl e \<Rightarrow> f = Fail (VmErrorDeletingVm (v_name a) e)
               | Inr _ \<Rightarrow> f = Raise TypeError))"
proof -
  let ?g = "v_resource_group a"
  obtain r0 t0 where cap_run: "delete_vm_capture env a res tr = (r0, t0)"
    by (cases "delete_vm_capture env a res tr")
  from delete_vm_capture_log[OF cap_run] obtain nms where t0: "t0 = tr @ map (NicGet ?g) nms"
    by blast
  have gets: "list_all (\<lambda>c. cascade_phase c \<le> 1) (map (NicGet ?g) nms)"
    by (simp add: list_all_iff)
  have no_vm: "VmDelete ?g (v_name a) \<notin> set (map (NicGet ?g) nms)"
    by auto
  show ?thesis
  proof (cases r0)
    case (Inl f)
    with cap_run t0 have run: "delete_vm env a res tr = (Inl f, tr @ map (NicGet ?g) nms)"
      by (simp add: delete_vm_def bnd_def)
    have "f = Raise NameError \<and> map (NicGet ?g) nms = []" if "global_vm env = None"
      using capture_unbound[OF dvs that, of res tr] cap_run Inl t0 by simp
    with run gets no_vm show ?thesis
      by (intro exI[of _ f] exI[of _ "map (NicGet ?g) nms"]) blast
  next
    case (Inr x)
    obtain cap res1 where x: "x = (cap, res1)" by (cases x)
    let ?f = "case virtual_machines_delete env t0 ?g (v_name a) of
         Inl e \<Rightarrow> Fail (VmErrorDeletingVm (v_name a) e)
       | Inr _ \<Rightarrow> Raise TypeError"
    let ?cs = "map (NicGet ?g) nms @ [VmDelete ?g (v_name a)]"
    from cap_run Inr x t0 cascade_with_storage[OF dvs, of env cap t0]
    have run: "delete_vm env a res tr = (Inl ?f, tr @ ?cs)"
      by (simp add: delete_vm_def bnd_def split: sum.splits)
    have bound: "global_vm env \<noteq> None"
      using capture_unbound[OF dvs, of env res tr] cap_run Inr by auto
    have cs: "list_all (\<lambda>c. cascade_phase c \<le> 1) ?cs"
      by (simp add: list_all_iff)
    have verdict: "case virtual_machines_delete env (tr @ butlast ?cs) ?g (v_name a) of
                 Inl e \<Rightarrow> ?f = Fail (VmErrorDeletingVm (v_name a) e)
               | Inr _ \<Rightarrow> ?f = Raise TypeError"
      using t0 by (simp add: butlast_append split: sum.splits)
    have "last ?cs = VmDelete ?g (v_name a)" by simp
    with run bound cs verdict show ?thesis
      by (intro exI[of _ ?f] exI[of _ ?cs]) blast
  qed
qed

text \<open>The example machine with \<^verbatim>\<open>delete_virtual_storage\<close> set: \<^verbatim>\<open>NameError\<close> when
  \<^verbatim>\<open>vm\<close> is not bound, \<^verbatim>\<open>TypeError\<close> after the machine is deleted when it is.\<close>

theorem disk_cleanup_never_completes_witness:
  "v_delete_virtual_storage (ex_vm_args\<lparr>v_delete_virtual_storage := True\<rparr>) \<and>
   delete_vm ex_vm_env (ex_vm_args\<lparr>v_delete_virtual_storage := True\<rparr>) ex_vm_results [] =
     (Inl (Raise NameError), []) \<and>
   delete_vm (ex_vm_env\<lparr>global_vm := Some ex_vm_object\<rparr>)
     (ex_vm_args\<lparr>v_delete_virtual_storage := True\<rparr>) ex_vm_results [] =
     (Inl (Raise TypeError), [VmDelete ''Testing'' ''testvm002''])"
proof -
  let ?a = "ex_vm_args\<lparr>v_delete_virtual_storage := True\<rparr>"
  have dvs: "v_delete_virtual_storage ?a" by simp
  from disk_cleanup_never_completes[OF dvs, of ex_vm_env ex_vm_results "[]"]
  have 1: "delete_vm ex_vm_env ?a ex_vm_results [] = (Inl (Raise NameError), [])"
    by (auto simp: ex_defs)
  have 2: "delete_vm (ex_vm_env\<lparr>global_vm := Some ex_vm_object\<rparr>) ?a ex_vm_results [] =
     (Inl (Raise TypeError), [VmDelete ''Testing'' ''testvm002''])"
    by (simp add: vm_defs ex_defs prog_defs)
  from dvs 1 2 show ?thesis by blast
qed

subsection \<open>A dependent resource that cannot be deleted\<close>



subsection \<open>The force flag\<close>












subsection \<open>Where the code does not do what is claimed\<close>

text \<open>
  Claim C2 (tags are replaced).  The network interface \<^verbatim>\<open>nic003\<close> has the tags
  \<^verbatim>\<open>{a: 1}\<close>.  With no tags (\<^verbatim>\<open>None\<close>) or empty tags in the arguments, the guard
  \<^verbatim>\<open>if self.tags:\<close> of line 350 skips the comparison: the run reports
  \<^verbatim>\<open>changed=false\<close>, makes no mutation, and the tags stay.  The resource group
  \<^verbatim>\<open>Testing\<close> has the tags \<^verbatim>\<open>{a: 1}\<close>; with no tags in the arguments the run reports
  \<^verbatim>\<open>changed=true\<close>, but lines 230--233 build the update from the fetched object
  \<^verbatim>\<open>rg\<close> and not from \<^verbatim>\<open>results\<close>, so the tags \<^verbatim>\<open>{a: 1}\<close> are submitted again (or
  \<^verbatim>\<open>TypeError\<close> is raised when the object cannot be subscripted).
\<close>

theorem tags_not_replaced:
  "(ni_tags ex_nic = Some [''a'' \<mapsto> ''1''] \<and> n_tags ex_nic_args = None \<and>
    (\<exists>r d tr'. nic_exec_module_impl ex_nic_env False ex_nic_args [] = (Inr r, tr') \<and>
       \<not> changed r \<and> mutations tr' = [] \<and>
       results r = Dict d \<and> nd_tags d = Some [''a'' \<mapsto> ''1''])) \<and>
   (\<exists>r d tr'. nic_exec_module_impl ex_nic_env False (ex_nic_args\<lparr>n_tags := Some Map.empty\<rparr>) [] =
       (Inr r, tr') \<and>
       \<not> changed r \<and> mutations tr' = [] \<and>
       results r = Dict d \<and> nd_tags d = Some [''a'' \<mapsto> ''1'']) \<and>
   (rg_tags ex_rg = Some [''a'' \<mapsto> ''1''] \<and> a_tags ex_rg_args = None \<and>
    (\<exists>r. rg_exec_module_impl ex_rg_env False ex_rg_args [] =
       (Inr r, [RgGet ''Testing'',
                RgCreateOrUpdate ''Testing''
                  \<lparr>rgp_location = Some ''eastus2'', rgp_tags = Some [''a'' \<mapsto> ''1'']\<rparr>]) \<and>
       changed r)) \<and>
   rg_exec_module_impl (ex_rg_env\<lparr>rg_item_access := False\<rparr>) False ex_rg_args [] =
     (Inl (Raise TypeError), [RgGet ''Testing''])"
  by (simp add: nic_defs rg_defs ex_defs prog_defs truthy_defs Let_def mutations_def)

text \<open>
  Claim C3 (validation of the size).  The location offers the size \<^verbatim>\<open>Standard_D1\<close> only
  and the arguments ask for \<^verbatim>\<open>Standard_G5\<close>: \<^verbatim>\<open>vm_size_is_valid\<close> returns
  \<^verbatim>\<open>False\<close>, line 214 drops the value, and the run creates the machine with the size
  \<^verbatim>\<open>Standard_G5\<close>.
\<close>

theorem vm_size_not_validated:
  "virtual_machine_sizes_list ex_vm_env [GetResourceGroup ''Testing''] (Some ''eastus2'') =
     Inr [''Standard_D1''] \<and>
   vm_size_is_valid ex_vm_env (ex_vm_args\<lparr>v_vm_size := ''Standard_G5''\<rparr>) (Some ''eastus2'')
     [GetResourceGroup ''Testing''] =
     (Inr False, [GetResourceGroup ''Testing'', VmSizesList (Some ''eastus2'')]) \<and>
   (\<exists>r tr' params. vm_exec_module_impl ex_vm_env False (ex_vm_args\<lparr>v_vm_size := ''Standard_G5''\<rparr>) [] =
       (Inr r, tr') \<and>
      changed r \<and>
      mutations tr' = [VmCreateOrUpdate ''Testing'' ''testvm002'' params] \<and>
      vm_vm_size params = ''Standard_G5'')"
  by (simp add: vm_defs ex_defs prog_defs truthy_defs Let_def mutations_def)

end
